theory Spec2Isabelle
  imports Main
begin

section \<open>Python values used by the service manager\<close>

text \<open>
  A Python \<open>str\<close> is a sequence of Unicode code points; it is modelled as a list of
  natural numbers. ASCII literals are written through \<open>u\<close>, the few pictographs of the
  console messages by their code points.
\<close>

type_synonym pystr = "nat list"

definition u :: "string \<Rightarrow> pystr" where
  "u s = map of_char s"

definition emoji_rocket :: pystr where "emoji_rocket = [128640]"
definition emoji_warning :: pystr where "emoji_warning = [9888, 65039]"
definition emoji_cross :: pystr where "emoji_cross = [10060]"
definition emoji_stop :: pystr where "emoji_stop = [128721]"
definition emoji_check :: pystr where "emoji_check = [9989]"
definition emoji_search :: pystr where "emoji_search = [128269]"
definition emoji_broom :: pystr where "emoji_broom = [129529]"

text \<open>\<open>needle in hay\<close> on strings: \<open>needle\<close> occurs as a contiguous run.\<close>

definition starts_with :: "pystr \<Rightarrow> pystr \<Rightarrow> bool" where
  "starts_with needle hay = (take (length needle) hay = needle)"

fun str_contains :: "pystr \<Rightarrow> pystr \<Rightarrow> bool" where
  "str_contains needle [] = (needle = [])"
| "str_contains needle (c # cs) = (starts_with needle (c # cs) \<or> str_contains needle cs)"

text \<open>
  \<open>str.strip()\<close> removes leading and trailing white space, that is the code points
  for which \<open>str.isspace\<close> holds.
\<close>

definition is_space :: "nat \<Rightarrow> bool" where
  "is_space c = ((9 \<le> c \<and> c \<le> 13) \<or> (28 \<le> c \<and> c \<le> 32) \<or> c = 133 \<or> c = 160
      \<or> c = 5760 \<or> (8192 \<le> c \<and> c \<le> 8202) \<or> c = 8232 \<or> c = 8233 \<or> c = 8239
      \<or> c = 8287 \<or> c = 12288)"

definition strip :: "pystr \<Rightarrow> pystr" where
  "strip s = rev (dropWhile is_space (rev (dropWhile is_space s)))"

text \<open>
  \<open>str.lower()\<close>, on the ASCII letters. No code point outside ASCII lower-cases to a
  letter of the words the service manager compares the result with, so the membership
  tests below agree with Python on every string.
\<close>

definition lower_cp :: "nat \<Rightarrow> nat" where
  "lower_cp c = (if 65 \<le> c \<and> c \<le> 90 then c + 32 else c)"

definition lower :: "pystr \<Rightarrow> pystr" where
  "lower s = map lower_cp s"

text \<open>\<open>str(n)\<close> for an integer: decimal digits, with a minus sign when negative.\<close>

fun digits :: "nat \<Rightarrow> pystr" where
  "digits n = (if n < 10 then [48 + n] else digits (n div 10) @ [48 + n mod 10])"

definition str_int :: "int \<Rightarrow> pystr" where
  "str_int i = (if i < 0 then 45 # digits (nat (- i)) else digits (nat i))"

text \<open>\<open>d.get(k, default)\<close> on a dictionary.\<close>

definition dict_get :: "('k \<rightharpoonup> 'v) \<Rightarrow> 'k \<Rightarrow> 'v \<Rightarrow> 'v" where
  "dict_get d k dflt = (case d k of None \<Rightarrow> dflt | Some v \<Rightarrow> v)"

subsection \<open>Paths\<close>

text \<open>
  A \<open>pathlib.Path\<close> is the tuple of its parts; \<open>p / name\<close> appends a part, and
  \<open>str(p)\<close> joins the parts with the separator. The paths are those of the POSIX
  flavour: the separator is the slash, a leading root part (one slash, or two) stands
  alone, and the empty path prints as a dot.
\<close>

type_synonym path = "pystr list"

definition pjoin :: "path \<Rightarrow> pystr \<Rightarrow> path" where
  "pjoin p name = p @ [name]"

fun join_parts :: "pystr list \<Rightarrow> pystr" where
  "join_parts [] = []"
| "join_parts [x] = x"
| "join_parts (x # y # ys) = x @ u ''/'' @ join_parts (y # ys)"

definition path_str :: "path \<Rightarrow> pystr" where
  "path_str p =
    (case p of
       [] \<Rightarrow> u ''.''
     | r # rest \<Rightarrow> if r = u ''/'' \<or> r = u ''//'' then r @ join_parts rest
                 else join_parts (r # rest))"

subsection \<open>Exceptions\<close>

text \<open>
  The exception classes the handlers of the service manager tell apart. Each carries
  its message (\<open>str(e)\<close>); \<open>TimeoutExpired\<close> also carries the error output captured
  up to the time limit. \<open>OSError\<close> stands for every operating-system error that is
  neither of the two subclasses listed (a \<open>PermissionError\<close>, say), \<open>OtherException\<close>
  for every other subclass of \<open>Exception\<close>. \<open>KeyboardInterrupt\<close> derives from
  \<open>BaseException\<close> only.
\<close>

datatype exn =
    TimeoutExpired pystr pystr
  | FileNotFoundError pystr
  | ProcessLookupError pystr
  | OSError pystr
  | RuntimeError pystr
  | ValueError pystr
  | OtherException pystr
  | KeyboardInterrupt

fun exn_str :: "exn \<Rightarrow> pystr" where
  "exn_str (TimeoutExpired msg captured) = msg"
| "exn_str (FileNotFoundError msg) = msg"
| "exn_str (ProcessLookupError msg) = msg"
| "exn_str (OSError msg) = msg"
| "exn_str (RuntimeError msg) = msg"
| "exn_str (ValueError msg) = msg"
| "exn_str (OtherException msg) = msg"
| "exn_str KeyboardInterrupt = []"

fun is_TimeoutExpired :: "exn \<Rightarrow> bool" where
  "is_TimeoutExpired (TimeoutExpired msg captured) = True"
| "is_TimeoutExpired e = False"

fun is_FileNotFoundError :: "exn \<Rightarrow> bool" where
  "is_FileNotFoundError (FileNotFoundError msg) = True"
| "is_FileNotFoundError e = False"

fun is_ProcessLookupError :: "exn \<Rightarrow> bool" where
  "is_ProcessLookupError (ProcessLookupError msg) = True"
| "is_ProcessLookupError e = False"

fun is_RuntimeError :: "exn \<Rightarrow> bool" where
  "is_RuntimeError (RuntimeError msg) = True"
| "is_RuntimeError e = False"

fun is_OSError :: "exn \<Rightarrow> bool" where
  "is_OSError (FileNotFoundError msg) = True"
| "is_OSError (ProcessLookupError msg) = True"
| "is_OSError (OSError msg) = True"
| "is_OSError e = False"

fun is_KeyboardInterrupt :: "exn \<Rightarrow> bool" where
  "is_KeyboardInterrupt KeyboardInterrupt = True"
| "is_KeyboardInterrupt e = False"

definition is_Exception :: "exn \<Rightarrow> bool" where
  "is_Exception e = (\<not> is_KeyboardInterrupt e)"

section \<open>The outside world\<close>

text \<open>
  Everything the service manager does to its surroundings is recorded, in order, as an
  event: console lines, status probes, file-system lookups, process invocations and
  signals. The trace of events is the state threaded through the model.
\<close>

datatype signal = SIGTERM | SIGKILL | CTRL_BREAK_EVENT

datatype popen_mode = CreationFlags bool | PreexecSetsid

datatype event =
    Print pystr
  | GetMainStatus pystr
  | PathResolve path
  | PathExists path
  | SubprocessRun "pystr list" "nat option"
  | Popen "pystr list" popen_mode
  | ProcWait "nat option"
  | ProcSendSignal signal
  | ProcTerminate
  | ProcKill
  | GetPgid
  | KillPg nat signal

type_synonym trace = "event list"

text \<open>The result of \<open>subprocess.run\<close> with captured output: exit code and error text.\<close>

record completed =
  returncode :: int
  stderr :: pystr

text \<open>
  What the surroundings answer. Every answer may depend on the moment it is asked for,
  the number of events that happened before. \<open>w_get_main_status\<close> is the status query
  of the main service (\<open>MainService.get_main_status\<close>, which is not part of the
  sources at hand and is therefore a parameter); the other fields are the standard
  library and the operating system: \<open>Path.resolve\<close>, \<open>Path.exists\<close>,
  \<open>subprocess.run\<close>, \<open>subprocess.Popen\<close> with the methods of the process object,
  \<open>os.getpgid\<close>, \<open>os.killpg\<close>, the process environment, \<open>platform.system\<close>, the
  built-in \<open>int\<close> on strings, and whether the \<open>signal\<close> and \<open>subprocess\<close> modules
  define \<open>CTRL_BREAK_EVENT\<close> and \<open>CREATE_NEW_PROCESS_GROUP\<close>.
\<close>

record world =
  w_get_main_status :: "nat \<Rightarrow> pystr \<Rightarrow> exn + (pystr \<rightharpoonup> pystr)"
  w_path_resolve :: "nat \<Rightarrow> path \<Rightarrow> exn + path"
  w_path_exists :: "nat \<Rightarrow> path \<Rightarrow> exn + bool"
  w_subprocess_run :: "nat \<Rightarrow> pystr list \<Rightarrow> exn + completed"
  w_popen :: "nat \<Rightarrow> pystr list \<Rightarrow> exn + unit"
  w_proc_wait :: "nat \<Rightarrow> nat option \<Rightarrow> exn + int"
  w_proc_send_signal :: "nat \<Rightarrow> signal \<Rightarrow> exn + unit"
  w_proc_terminate :: "nat \<Rightarrow> exn + unit"
  w_proc_kill :: "nat \<Rightarrow> exn + unit"
  w_getpgid :: "nat \<Rightarrow> exn + nat"
  w_killpg :: "nat \<Rightarrow> nat \<Rightarrow> signal \<Rightarrow> exn + unit"
  w_environ :: "pystr \<rightharpoonup> pystr"
  w_platform_system :: pystr
  w_int :: "pystr \<Rightarrow> exn + int"
  w_has_ctrl_break :: bool
  w_has_new_process_group :: bool

subsection \<open>Sequencing, exceptions and handlers\<close>

text \<open>
  A Python statement takes the trace and either returns a value or raises, leaving
  the extended trace behind.
\<close>

type_synonym 'a io = "trace \<Rightarrow> (exn + 'a) \<times> trace"

definition ret :: "'a \<Rightarrow> 'a io" where
  "ret a s = (Inr a, s)"

definition raise :: "exn \<Rightarrow> 'a io" where
  "raise e s = (Inl e, s)"

definition seq :: "'a io \<Rightarrow> ('a \<Rightarrow> 'b io) \<Rightarrow> 'b io" where
  "seq m f s = (case m s of (Inl e, s') \<Rightarrow> (Inl e, s') | (Inr a, s') \<Rightarrow> f a s')"

text \<open>\<open>try: m  except ...: h e\<close>; a handler that does not match re-raises.\<close>

definition try_except :: "'a io \<Rightarrow> (exn \<Rightarrow> 'a io) \<Rightarrow> 'a io" where
  "try_except m h s = (case m s of (Inl e, s') \<Rightarrow> h e s' | (Inr a, s') \<Rightarrow> (Inr a, s'))"

text \<open>An interaction with the surroundings: the event is logged, the answer is the
  one the world gives at this moment.\<close>

definition call :: "event \<Rightarrow> (nat \<Rightarrow> exn + 'a) \<Rightarrow> 'a io" where
  "call ev answer s = (answer (length s), s @ [ev])"

text \<open>\<open>print(line)\<close>; writing to the console is taken to succeed.\<close>

definition py_print :: "pystr \<Rightarrow> unit io" where
  "py_print line s = (Inr (), s @ [Print line])"

definition getenv :: "world \<Rightarrow> pystr \<Rightarrow> pystr \<Rightarrow> pystr" where
  "getenv w name dflt = dict_get (w_environ w) name dflt"

section \<open>The compose locator\<close>

definition docker_compose_main :: "path \<Rightarrow> path" where
  "docker_compose_main workspace =
     pjoin (pjoin (pjoin workspace (u ''docker'')) (u ''main'')) (u ''docker-compose.yml'')"

definition docker_compose_root :: "path \<Rightarrow> path" where
  "docker_compose_root workspace = pjoin workspace (u ''docker-compose.yml'')"

definition resolve_compose_file :: "world \<Rightarrow> path \<Rightarrow> path option io" where
  "resolve_compose_file w workspace_path =
     seq (try_except
            (call (PathResolve workspace_path) (\<lambda>t. w_path_resolve w t workspace_path))
            (\<lambda>e. if is_FileNotFoundError e \<or> is_RuntimeError e
                  then ret workspace_path else raise e))
       (\<lambda>workspace.
          seq (call (PathExists (docker_compose_main workspace))
                    (\<lambda>t. w_path_exists w t (docker_compose_main workspace)))
            (\<lambda>main_exists.
               if main_exists then ret (Some (docker_compose_main workspace))
               else seq (call (PathExists (docker_compose_root workspace))
                              (\<lambda>t. w_path_exists w t (docker_compose_root workspace)))
                      (\<lambda>root_exists.
                         if root_exists then ret (Some (docker_compose_root workspace))
                         else ret None)))"

section \<open>Command lines\<close>

definition hive_postgres :: pystr where
  "hive_postgres = u ''hive-postgres''"

definition compose_args :: "path \<Rightarrow> pystr list" where
  "compose_args compose_file = [u ''docker'', u ''compose'', u ''-f'', path_str compose_file]"

definition compose_up_cmd :: "path \<Rightarrow> pystr list" where
  "compose_up_cmd compose_file =
     [u ''docker'', u ''compose'', u ''-f'', path_str compose_file, u ''up'', u ''-d'', hive_postgres]"

definition compose_stop_cmd :: "path \<Rightarrow> pystr list" where
  "compose_stop_cmd compose_file = compose_args compose_file @ [u ''stop'', hive_postgres]"

definition compose_rm_cmd :: "path \<Rightarrow> pystr list" where
  "compose_rm_cmd compose_file = compose_args compose_file @ [u ''rm'', u ''-f'', hive_postgres]"

definition docker_stop_cmd :: "pystr list" where
  "docker_stop_cmd = [u ''docker'', u ''stop'', hive_postgres]"

definition docker_rm_cmd :: "pystr list" where
  "docker_rm_cmd = [u ''docker'', u ''rm'', u ''-f'', hive_postgres]"

definition uvicorn_cmd :: "pystr \<Rightarrow> int \<Rightarrow> bool \<Rightarrow> pystr list" where
  "uvicorn_cmd actual_host actual_port reload =
     [u ''uv'', u ''run'', u ''uvicorn'', u ''api.serve:app'', u ''--factory'',
      u ''--host'', actual_host, u ''--port'', str_int actual_port]
     @ (if reload then [u ''--reload''] else [])"

section \<open>The status prober\<close>

definition stopped_text :: pystr where
  "stopped_text = emoji_stop @ u '' Stopped''"

definition docker_status :: "world \<Rightarrow> pystr \<Rightarrow> (pystr \<rightharpoonup> pystr) io" where
  "docker_status w workspace =
     try_except
       (call (GetMainStatus workspace) (\<lambda>t. w_get_main_status w t workspace))
       (\<lambda>e. if is_Exception e
             then ret [hive_postgres \<mapsto> stopped_text, u ''hive-api'' \<mapsto> stopped_text]
             else raise e)"

definition is_postgres_dependency_active :: "world \<Rightarrow> path \<Rightarrow> bool io" where
  "is_postgres_dependency_active w workspace_path =
     try_except
       (seq (call (GetMainStatus (path_str workspace_path))
                  (\<lambda>t. w_get_main_status w t (path_str workspace_path)))
          (\<lambda>status. ret (str_contains emoji_check (dict_get status hive_postgres []))))
       (\<lambda>e. if is_Exception e then ret False else raise e)"

section \<open>The dependency starter\<close>

definition msg_already_running :: pystr where
  "msg_already_running = emoji_check @ u '' PostgreSQL dependency is already running''"

definition msg_compose_not_found :: pystr where
  "msg_compose_not_found =
     emoji_cross @ u '' Docker compose file not found. Run --install to set up the environment.''"

definition msg_env_not_found :: pystr where
  "msg_env_not_found =
     emoji_cross @ u '' .env file not found. Run --install to set up the environment first.''"

definition msg_starting_postgres :: pystr where
  "msg_starting_postgres =
     emoji_search @ u '' PostgreSQL dependency not running, starting automatically...''"

definition msg_start_failed :: "pystr \<Rightarrow> pystr" where
  "msg_start_failed err = emoji_cross @ u '' Failed to start PostgreSQL: '' @ err"

definition msg_start_ok :: pystr where
  "msg_start_ok = emoji_check @ u '' PostgreSQL dependency started successfully''"

definition msg_start_timeout :: pystr where
  "msg_start_timeout = emoji_cross @ u '' Timeout starting PostgreSQL container''"

definition msg_start_no_docker :: pystr where
  "msg_start_no_docker =
     emoji_cross @ u '' Docker not found. Please install Docker and try again.''"

definition msg_ensure_error :: "exn \<Rightarrow> pystr" where
  "msg_ensure_error e = emoji_cross @ u '' Error ensuring PostgreSQL dependency: '' @ exn_str e"

text \<open>The inner \<open>try\<close> of the starter: the start invocation, bounded by 60 seconds.\<close>

definition start_postgres :: "world \<Rightarrow> path \<Rightarrow> (bool \<times> bool) io" where
  "start_postgres w compose_file =
     try_except
       (seq (call (SubprocessRun (compose_up_cmd compose_file) (Some 60))
                  (\<lambda>t. w_subprocess_run w t (compose_up_cmd compose_file)))
          (\<lambda>result.
             if returncode result \<noteq> 0
             then seq (py_print (msg_start_failed (stderr result))) (\<lambda>_. ret (False, False))
             else seq (py_print msg_start_ok) (\<lambda>_. ret (True, True))))
       (\<lambda>e. if is_TimeoutExpired e
             then seq (py_print msg_start_timeout) (\<lambda>_. ret (False, False))
             else if is_FileNotFoundError e
             then seq (py_print msg_start_no_docker) (\<lambda>_. ret (False, False))
             else raise e)"

definition ensure_postgres_dependency :: "world \<Rightarrow> path \<Rightarrow> (bool \<times> bool) io" where
  "ensure_postgres_dependency w workspace_path =
     try_except
       (seq (call (GetMainStatus (path_str workspace_path))
                  (\<lambda>t. w_get_main_status w t (path_str workspace_path)))
          (\<lambda>status.
             let postgres_status = dict_get status hive_postgres []
             in if str_contains (emoji_check @ u '' Running'') postgres_status
                then seq (py_print msg_already_running) (\<lambda>_. ret (True, False))
                else
                  seq (resolve_compose_file w workspace_path)
                    (\<lambda>compose_file.
                       case compose_file of
                         None \<Rightarrow> seq (py_print msg_compose_not_found) (\<lambda>_. ret (False, False))
                       | Some cf \<Rightarrow>
                           let env_file = pjoin workspace_path (u ''.env'')
                           in seq (call (PathExists env_file) (\<lambda>t. w_path_exists w t env_file))
                                (\<lambda>env_exists.
                                   if \<not> env_exists
                                   then seq (py_print msg_env_not_found) (\<lambda>_. ret (False, False))
                                   else seq (py_print msg_starting_postgres)
                                          (\<lambda>_. start_postgres w cf)))))
       (\<lambda>e. if is_Exception e
             then seq (py_print (msg_ensure_error e)) (\<lambda>_. ret (False, False))
             else raise e)"

section \<open>The dependency stopper\<close>

definition msg_stopped :: pystr where
  "msg_stopped = emoji_stop @ u '' PostgreSQL dependency stopped''"

definition msg_stop_issue :: "pystr \<Rightarrow> pystr" where
  "msg_stop_issue err = emoji_warning @ u '' PostgreSQL stop reported an issue: '' @ err"

definition msg_stop_timeout :: pystr where
  "msg_stop_timeout = emoji_warning @ u '' Timeout stopping PostgreSQL container''"

definition msg_stop_no_docker :: pystr where
  "msg_stop_no_docker = emoji_warning @ u '' Docker not found while stopping PostgreSQL container''"

definition msg_removed :: pystr where
  "msg_removed = emoji_broom @ u '' Removed managed PostgreSQL container''"

definition msg_rm_issue :: "pystr \<Rightarrow> pystr" where
  "msg_rm_issue err =
     emoji_warning @ u '' PostgreSQL container removal reported an issue: '' @ err"

definition msg_rm_timeout :: pystr where
  "msg_rm_timeout = emoji_warning @ u '' Timeout removing PostgreSQL container''"

definition msg_rm_no_docker :: pystr where
  "msg_rm_no_docker = emoji_warning @ u '' Docker not found while removing PostgreSQL container''"

definition msg_direct_stop_timeout :: pystr where
  "msg_direct_stop_timeout =
     emoji_warning @ u '' Timeout stopping PostgreSQL container via docker stop''"

definition msg_direct_stop_no_docker :: pystr where
  "msg_direct_stop_no_docker =
     emoji_warning @ u '' Docker not found while stopping PostgreSQL container via docker stop''"

definition msg_direct_stopped :: pystr where
  "msg_direct_stopped = emoji_stop @ u '' PostgreSQL dependency stopped (direct docker stop)''"

definition msg_direct_stop_issue :: "pystr \<Rightarrow> pystr" where
  "msg_direct_stop_issue err =
     emoji_warning @ u '' docker stop hive-postgres reported an issue: '' @ err"

definition msg_direct_removed :: pystr where
  "msg_direct_removed = emoji_broom @ u '' Removed managed PostgreSQL container (direct docker rm)''"

definition msg_direct_rm_issue :: "pystr \<Rightarrow> pystr" where
  "msg_direct_rm_issue err =
     emoji_warning @ u '' docker rm hive-postgres reported an issue: '' @ err"

definition msg_direct_rm_timeout :: pystr where
  "msg_direct_rm_timeout =
     emoji_warning @ u '' Timeout removing PostgreSQL container via docker rm''"

definition msg_direct_rm_no_docker :: pystr where
  "msg_direct_rm_no_docker =
     emoji_warning @ u '' Docker not found while removing PostgreSQL container via docker rm''"

text \<open>
  The fallback stop by container name. The two handlers return early; \<open>None\<close> stands
  for that early \<open>return False\<close>, \<open>Some result\<close> for leaving the \<open>try\<close> normally.
\<close>

definition stop_postgres_by_container :: "world \<Rightarrow> bool io" where
  "stop_postgres_by_container w =
     seq (try_except
            (seq (call (SubprocessRun docker_stop_cmd (Some 30))
                       (\<lambda>t. w_subprocess_run w t docker_stop_cmd))
               (\<lambda>result. ret (Some result)))
            (\<lambda>e. if is_TimeoutExpired e
                  then seq (py_print msg_direct_stop_timeout) (\<lambda>_. ret None)
                  else if is_FileNotFoundError e
                  then seq (py_print msg_direct_stop_no_docker) (\<lambda>_. ret None)
                  else raise e))
       (\<lambda>r. case r of
               None \<Rightarrow> ret False
             | Some result \<Rightarrow>
                 if returncode result = 0
                 then seq (py_print msg_direct_stopped) (\<lambda>_. ret True)
                 else let err = strip (stderr result)
                      in seq (if err \<noteq> [] then py_print (msg_direct_stop_issue err) else ret ())
                           (\<lambda>_. ret False))"

definition remove_postgres_by_container :: "world \<Rightarrow> unit io" where
  "remove_postgres_by_container w =
     try_except
       (seq (call (SubprocessRun docker_rm_cmd (Some 30))
                  (\<lambda>t. w_subprocess_run w t docker_rm_cmd))
          (\<lambda>result.
             if returncode result = 0
             then py_print msg_direct_removed
             else let err = strip (stderr result)
                  in if err \<noteq> [] then py_print (msg_direct_rm_issue err) else ret ()))
       (\<lambda>e. if is_TimeoutExpired e then py_print msg_direct_rm_timeout
             else if is_FileNotFoundError e then py_print msg_direct_rm_no_docker
             else raise e)"

text \<open>The first layer: stop through the compose tool; the result is \<open>stopped\<close>.\<close>

definition compose_stop :: "world \<Rightarrow> path \<Rightarrow> bool io" where
  "compose_stop w compose_file =
     try_except
       (seq (call (SubprocessRun (compose_stop_cmd compose_file) (Some 30))
                  (\<lambda>t. w_subprocess_run w t (compose_stop_cmd compose_file)))
          (\<lambda>stop_result.
             if returncode stop_result = 0
             then seq (py_print msg_stopped) (\<lambda>_. ret True)
             else seq (py_print (msg_stop_issue (strip (stderr stop_result)))) (\<lambda>_. ret False)))
       (\<lambda>e. if is_TimeoutExpired e then seq (py_print msg_stop_timeout) (\<lambda>_. ret False)
             else if is_FileNotFoundError e then seq (py_print msg_stop_no_docker) (\<lambda>_. ret False)
             else raise e)"

definition compose_rm :: "world \<Rightarrow> path \<Rightarrow> unit io" where
  "compose_rm w compose_file =
     try_except
       (seq (call (SubprocessRun (compose_rm_cmd compose_file) (Some 30))
                  (\<lambda>t. w_subprocess_run w t (compose_rm_cmd compose_file)))
          (\<lambda>rm_result.
             if returncode rm_result = 0
             then py_print msg_removed
             else py_print (msg_rm_issue (strip (stderr rm_result)))))
       (\<lambda>e. if is_TimeoutExpired e then py_print msg_rm_timeout
             else if is_FileNotFoundError e then py_print msg_rm_no_docker
             else raise e)"

definition stop_postgres_dependency :: "world \<Rightarrow> path \<Rightarrow> unit io" where
  "stop_postgres_dependency w workspace_path =
     seq (resolve_compose_file w workspace_path)
       (\<lambda>compose_file.
          seq (case compose_file of None \<Rightarrow> ret False | Some cf \<Rightarrow> compose_stop w cf)
            (\<lambda>stopped0.
               seq (if \<not> stopped0 then stop_postgres_by_container w else ret stopped0)
                 (\<lambda>stopped.
                    case compose_file of
                      Some cf \<Rightarrow> compose_rm w cf
                    | None \<Rightarrow> if stopped then remove_postgres_by_container w else ret ())))"

section \<open>The lifecycle driver\<close>

definition msg_server_starting :: "pystr \<Rightarrow> int \<Rightarrow> pystr" where
  "msg_server_starting actual_host actual_port =
     emoji_rocket @ u '' Starting local development server on '' @ actual_host @ u '':''
       @ str_int actual_port"

definition msg_dependency_failed :: pystr where
  "msg_dependency_failed =
     emoji_warning @ u '' PostgreSQL dependency check failed - server may not start properly''"

definition msg_server_failed :: "exn \<Rightarrow> pystr" where
  "msg_server_failed e = emoji_cross @ u '' Failed to start local server: '' @ exn_str e"

definition msg_cleanup_skipped :: pystr where
  "msg_cleanup_skipped =
     emoji_stop @ u '' Postgres cleanup skipped (HIVE_DEV_KEEP_POSTGRES enabled)''"

text \<open>The handler of an interrupt that arrives while the server process is waited for.\<close>

definition shutdown_windows :: "world \<Rightarrow> unit io" where
  "shutdown_windows w =
     (let sig = (if w_has_ctrl_break w then CTRL_BREAK_EVENT else SIGTERM)
      in seq (try_except
                (call (ProcSendSignal sig) (\<lambda>t. w_proc_send_signal w t sig))
                (\<lambda>e. if is_Exception e then call ProcTerminate (w_proc_terminate w)
                      else raise e))
           (\<lambda>_. try_except
                   (seq (call (ProcWait (Some 10)) (\<lambda>t. w_proc_wait w t (Some 10)))
                      (\<lambda>_. ret ()))
                   (\<lambda>e. if is_Exception e then call ProcKill (w_proc_kill w) else raise e)))"

definition killpg_of_proc :: "world \<Rightarrow> signal \<Rightarrow> unit io" where
  "killpg_of_proc w sig =
     seq (call GetPgid (w_getpgid w))
       (\<lambda>pgid. call (KillPg pgid sig) (\<lambda>t. w_killpg w t pgid sig))"

definition shutdown_posix :: "world \<Rightarrow> unit io" where
  "shutdown_posix w =
     seq (try_except (killpg_of_proc w SIGTERM)
            (\<lambda>e. if is_ProcessLookupError e then ret () else raise e))
       (\<lambda>_. try_except
               (seq (call (ProcWait (Some 10)) (\<lambda>t. w_proc_wait w t (Some 10)))
                  (\<lambda>_. ret ()))
               (\<lambda>e. if is_Exception e
                     then try_except (killpg_of_proc w SIGKILL)
                            (\<lambda>e'. if is_Exception e' then ret () else raise e')
                     else raise e))"

definition use_graceful :: "world \<Rightarrow> bool" where
  "use_graceful w =
     (lower (getenv w (u ''HIVE_DEV_GRACEFUL'') (u ''0'')) \<notin> set [u ''0'', u ''false'', u ''no''])"

text \<open>Launching the server and waiting for it, from the dependency warning on.\<close>

definition run_server :: "world \<Rightarrow> pystr \<Rightarrow> int \<Rightarrow> bool \<Rightarrow> bool \<Rightarrow> bool io" where
  "run_server w actual_host actual_port postgres_running reload =
     seq (if \<not> postgres_running then py_print msg_dependency_failed else ret ())
       (\<lambda>_.
          let cmd = uvicorn_cmd actual_host actual_port reload
          in if \<not> use_graceful w
             then try_except
                    (seq (call (SubprocessRun cmd None) (\<lambda>t. w_subprocess_run w t cmd))
                       (\<lambda>_. ret True))
                    (\<lambda>e. if is_KeyboardInterrupt e then ret True else raise e)
             else
               let system = w_platform_system w
               in seq (if system = u ''Windows''
                       then call (Popen cmd (CreationFlags (w_has_new_process_group w)))
                                 (\<lambda>t. w_popen w t cmd)
                       else call (Popen cmd PreexecSetsid) (\<lambda>t. w_popen w t cmd))
                    (\<lambda>_. try_except
                            (seq (call (ProcWait None) (\<lambda>t. w_proc_wait w t None))
                               (\<lambda>rc. ret (rc = 0)))
                            (\<lambda>e. if is_KeyboardInterrupt e
                                  then seq (if system = u ''Windows'' then shutdown_windows w
                                            else shutdown_posix w)
                                         (\<lambda>_. ret True)
                                  else raise e)))"

text \<open>
  The statements of the \<open>try\<close> block up to the assignment of the starter's result:
  host, port, the announcement and the dependency check.
\<close>

definition serve_prelude :: "world \<Rightarrow> path \<Rightarrow> pystr option \<Rightarrow> int option
    \<Rightarrow> (pystr \<times> int \<times> bool \<times> bool) io" where
  "serve_prelude w workspace_path host port =
     (let actual_host =
            (case host of
               Some h \<Rightarrow> if h \<noteq> [] then h else getenv w (u ''HIVE_API_HOST'') (u ''0.0.0.0'')
             | None \<Rightarrow> getenv w (u ''HIVE_API_HOST'') (u ''0.0.0.0''))
      in seq (case port of
                Some p \<Rightarrow> if p \<noteq> 0 then ret p
                          else (\<lambda>s. (w_int w (getenv w (u ''HIVE_API_PORT'') (u ''8886'')), s))
              | None \<Rightarrow> (\<lambda>s. (w_int w (getenv w (u ''HIVE_API_PORT'') (u ''8886'')), s)))
           (\<lambda>actual_port.
              seq (py_print (msg_server_starting actual_host actual_port))
                (\<lambda>_. seq (ensure_postgres_dependency w workspace_path)
                        (\<lambda>(postgres_running, postgres_started).
                           ret (actual_host, actual_port, postgres_running, postgres_started)))))"

text \<open>
  The \<open>try\<close> block. Besides its outcome it yields the value the local variable
  \<open>postgres_started\<close> has when the block is left: \<open>False\<close> until the starter has
  returned.
\<close>

definition serve_local_try :: "world \<Rightarrow> path \<Rightarrow> pystr option \<Rightarrow> int option \<Rightarrow> bool
    \<Rightarrow> trace \<Rightarrow> ((exn + bool) \<times> bool) \<times> trace" where
  "serve_local_try w workspace_path host port reload s =
     (case serve_prelude w workspace_path host port s of
        (Inl e, s1) \<Rightarrow> ((Inl e, False), s1)
      | (Inr (actual_host, actual_port, postgres_running, postgres_started), s1) \<Rightarrow>
          (case run_server w actual_host actual_port postgres_running reload s1 of
             (r, s2) \<Rightarrow> ((r, postgres_started), s2)))"

definition keep_postgres :: "world \<Rightarrow> bool" where
  "keep_postgres w =
     (lower (getenv w (u ''HIVE_DEV_KEEP_POSTGRES'') (u ''0'')) \<in> set [u ''1'', u ''true'', u ''yes''])"

definition serve_local_finally :: "world \<Rightarrow> path \<Rightarrow> bool \<Rightarrow> unit io" where
  "serve_local_finally w workspace_path postgres_started =
     (if keep_postgres w then py_print msg_cleanup_skipped
      else if postgres_started then stop_postgres_dependency w workspace_path
      else seq (is_postgres_dependency_active w workspace_path)
             (\<lambda>active. if active then stop_postgres_dependency w workspace_path else ret ()))"

text \<open>
  \<open>serve_local\<close>: the \<open>try\<close> block, the handler of \<open>OSError\<close>, and the \<open>finally\<close>
  block, which runs on every way out; an exception it raises replaces the outcome.
\<close>

definition serve_local :: "world \<Rightarrow> path \<Rightarrow> pystr option \<Rightarrow> int option \<Rightarrow> bool \<Rightarrow> bool io" where
  "serve_local w workspace_path host port reload s =
     (case serve_local_try w workspace_path host port reload s of
        ((r, postgres_started), s1) \<Rightarrow>
          (case (case r of
                   Inl e \<Rightarrow> if is_OSError e
                            then seq (py_print (msg_server_failed e)) (\<lambda>_. ret False) s1
                            else (Inl e, s1)
                 | Inr b \<Rightarrow> (Inr b, s1)) of
             (r', s2) \<Rightarrow>
               (case serve_local_finally w workspace_path postgres_started s2 of
                  (Inl e, s3) \<Rightarrow> (Inl e, s3)
                | (Inr x, s3) \<Rightarrow> (r', s3))))"

section \<open>Vocabulary of the properties\<close>

text \<open>The command lines handed to \<open>subprocess.run\<close>, in the order they were issued.\<close>

fun invocations :: "trace \<Rightarrow> pystr list list" where
  "invocations [] = []"
| "invocations (SubprocessRun cmd tmo # evs) = cmd # invocations evs"
| "invocations (ev # evs) = invocations evs"

text \<open>
  A stop or remove invocation: one of the two direct commands, or a compose command for
  any descriptor whose action is \<open>stop\<close> or \<open>rm -f\<close> on the dependency.
\<close>

fun is_stop_or_remove :: "event \<Rightarrow> bool" where
  "is_stop_or_remove (SubprocessRun cmd tmo) =
     (cmd = docker_stop_cmd \<or> cmd = docker_rm_cmd
      \<or> (take 3 cmd = [u ''docker'', u ''compose'', u ''-f'']
          \<and> (drop 4 cmd = [u ''stop'', hive_postgres]
               \<or> drop 4 cmd = [u ''rm'', u ''-f'', hive_postgres])))"
| "is_stop_or_remove ev = False"

text \<open>The steps of a shutdown of the server process: signals, kills and waits.\<close>

fun is_shutdown_step :: "event \<Rightarrow> bool" where
  "is_shutdown_step (ProcWait tmo) = True"
| "is_shutdown_step (ProcSendSignal sg) = True"
| "is_shutdown_step ProcTerminate = True"
| "is_shutdown_step ProcKill = True"
| "is_shutdown_step (KillPg pgid sg) = True"
| "is_shutdown_step ev = False"

text \<open>A console line that contains the given text.\<close>

fun reports :: "pystr \<Rightarrow> event \<Rightarrow> bool" where
  "reports text (Print line) = str_contains text line"
| "reports text ev = False"

text \<open>\<open>raises_only Q m\<close>: whatever \<open>m\<close> raises satisfies \<open>Q\<close>.\<close>

definition raises_only :: "(exn \<Rightarrow> bool) \<Rightarrow> 'a io \<Rightarrow> bool" where
  "raises_only Q m = (\<forall>s e. fst (m s) = Inl e \<longrightarrow> Q e)"

text \<open>\<open>emits P m\<close>: \<open>m\<close> only extends the trace, by events that satisfy \<open>P\<close>.\<close>

definition emits :: "(event \<Rightarrow> bool) \<Rightarrow> 'a io \<Rightarrow> bool" where
  "emits P m = (\<forall>s. \<exists>evs. snd (m s) = s @ evs \<and> (\<forall>ev \<in> set evs. P ev))"

text \<open>The two failures every process invocation of the stopper has a handler for.\<close>

definition handled_failure :: "exn \<Rightarrow> bool" where
  "handled_failure e = (is_TimeoutExpired e \<or> is_FileNotFoundError e)"

definition harmless :: "event \<Rightarrow> bool" where
  "harmless ev = (\<not> is_stop_or_remove ev)"

text \<open>
  Whether the failures of the process invocations in a trace were reported. The trace
  is walked with the moment of each event; an invocation that did not exit with code 0
  must be followed at once by a warning line. The one exception is a stop or remove by
  container name that exited non-zero with blank error output: no console line follows
  it.
\<close>

fun run_succeeded :: "exn + completed \<Rightarrow> bool" where
  "run_succeeded (Inr r) = (returncode r = 0)"
| "run_succeeded (Inl e) = False"

fun silent_failure :: "pystr list \<Rightarrow> exn + completed \<Rightarrow> bool" where
  "silent_failure cmd (Inr r) =
     ((cmd = docker_stop_cmd \<or> cmd = docker_rm_cmd)
      \<and> returncode r \<noteq> 0 \<and> strip (stderr r) = [])"
| "silent_failure cmd (Inl e) = False"

fun is_print :: "event \<Rightarrow> bool" where
  "is_print (Print line) = True"
| "is_print ev = False"

fun is_run :: "event \<Rightarrow> bool" where
  "is_run (SubprocessRun cmd tmo) = True"
| "is_run ev = False"

fun is_warning :: "event \<Rightarrow> bool" where
  "is_warning (Print line) = starts_with emoji_warning line"
| "is_warning ev = False"

fun failures_reported :: "world \<Rightarrow> nat \<Rightarrow> trace \<Rightarrow> bool" where
  "failures_reported w t [] = True"
| "failures_reported w t (SubprocessRun cmd tmo # evs) =
     ((if run_succeeded (w_subprocess_run w t cmd) then True
       else if silent_failure cmd (w_subprocess_run w t cmd)
       then (case evs of [] \<Rightarrow> True | ev # rest \<Rightarrow> \<not> is_print ev)
       else (case evs of [] \<Rightarrow> False | ev # rest \<Rightarrow> is_warning ev))
      \<and> failures_reported w (Suc t) evs)"
| "failures_reported w t (ev # evs) = failures_reported w (Suc t) evs"

text \<open>The trace of one layer of the stopper: it begins with the invocation.\<close>

definition layer_trace :: "world \<Rightarrow> nat \<Rightarrow> trace \<Rightarrow> bool" where
  "layer_trace w t evs =
     (failures_reported w t evs \<and> (case evs of [] \<Rightarrow> False | ev # rest \<Rightarrow> is_run ev))"

section \<open>Example worlds\<close>

text \<open>
  A workspace in which every file exists, every command succeeds at once, the
  dependency is reported as stopped and no environment variable is set.
\<close>

definition quiet_world :: world where
  "quiet_world =
     \<lparr> w_get_main_status = (\<lambda>t workspace. Inr [hive_postgres \<mapsto> stopped_text]),
       w_path_resolve = (\<lambda>t p. Inr p),
       w_path_exists = (\<lambda>t p. Inr True),
       w_subprocess_run = (\<lambda>t cmd. Inr \<lparr> returncode = 0, stderr = [] \<rparr>),
       w_popen = (\<lambda>t cmd. Inr ()),
       w_proc_wait = (\<lambda>t tmo. Inr 0),
       w_proc_send_signal = (\<lambda>t sg. Inr ()),
       w_proc_terminate = (\<lambda>t. Inr ()),
       w_proc_kill = (\<lambda>t. Inr ()),
       w_getpgid = (\<lambda>t. Inr 4242),
       w_killpg = (\<lambda>t pgid sg. Inr ()),
       w_environ = Map.empty,
       w_platform_system = u ''Linux'',
       w_int = (\<lambda>s. if s = u ''8886'' then Inr 8886 else Inl (ValueError s)),
       w_has_ctrl_break = False,
       w_has_new_process_group = False \<rparr>"

text \<open>The dependency is reported as running.\<close>

definition running_world :: world where
  "running_world =
     quiet_world \<lparr> w_get_main_status :=
       (\<lambda>t workspace. Inr [hive_postgres \<mapsto> emoji_check @ u '' Running'']) \<rparr>"

text \<open>The status query fails.\<close>

definition probe_error_world :: world where
  "probe_error_world =
     quiet_world \<lparr> w_get_main_status :=
       (\<lambda>t workspace. Inl (OtherException (u ''docker daemon unreachable''))) \<rparr>"

text \<open>The container runtime is found but may not be executed.\<close>

definition permission_denied_world :: world where
  "permission_denied_world =
     quiet_world \<lparr> w_subprocess_run := (\<lambda>t cmd. Inl (OSError (u ''Permission denied''))) \<rparr>"

text \<open>The container runtime is not installed.\<close>

definition no_docker_world :: world where
  "no_docker_world =
     quiet_world \<lparr> w_subprocess_run := (\<lambda>t cmd. Inl (FileNotFoundError (u ''docker''))) \<rparr>"

text \<open>Every command runs into its time limit, having written a line of error output.\<close>

definition start_timeout_world :: world where
  "start_timeout_world =
     quiet_world \<lparr> w_subprocess_run :=
       (\<lambda>t cmd. Inl (TimeoutExpired (u ''timed out after 60 seconds'') (u ''pull stalled''))) \<rparr>"

text \<open>Every command exits with code 1 and an error line.\<close>

definition start_fail_world :: world where
  "start_fail_world =
     quiet_world \<lparr> w_subprocess_run :=
       (\<lambda>t cmd. Inr \<lparr> returncode = 1, stderr = u ''port is already allocated'' \<rparr>) \<rparr>"

text \<open>The compose tool fails, the container runtime itself works.\<close>

definition compose_broken_world :: world where
  "compose_broken_world =
     quiet_world \<lparr> w_subprocess_run :=
       (\<lambda>t cmd. if take 2 cmd = [u ''docker'', u ''compose'']
                 then Inr \<lparr> returncode = 1, stderr = u ''no configuration file provided'' \<rparr>
                 else Inr \<lparr> returncode = 0, stderr = [] \<rparr>) \<rparr>"

text \<open>No file exists in the workspace.\<close>

definition no_compose_world :: world where
  "no_compose_world = quiet_world \<lparr> w_path_exists := (\<lambda>t p. Inr False) \<rparr>"

text \<open>No compose file exists, and every command exits with code 1 and blank error output.\<close>

definition silent_world :: world where
  "silent_world =
     no_compose_world \<lparr> w_subprocess_run :=
       (\<lambda>t cmd. Inr \<lparr> returncode = 1, stderr = u ''  '' \<rparr>) \<rparr>"

text \<open>Only the compose file at the workspace root exists.\<close>

definition root_only_world :: world where
  "root_only_world =
     quiet_world \<lparr> w_path_exists := (\<lambda>t p. Inr (p = docker_compose_root [u ''ws''])) \<rparr>"

text \<open>The workspace root cannot be resolved; the root compose file exists.\<close>

definition unresolvable_world :: world where
  "unresolvable_world =
     root_only_world \<lparr> w_path_resolve := (\<lambda>t p. Inl (RuntimeError (u ''Symlink loop''))) \<rparr>"

text \<open>The override that keeps the dependency is set.\<close>

definition keep_world :: world where
  "keep_world = quiet_world \<lparr> w_environ := [u ''HIVE_DEV_KEEP_POSTGRES'' \<mapsto> u ''true''] \<rparr>"

text \<open>The server is interrupted, in the default mode.\<close>

definition interrupt_world :: world where
  "interrupt_world =
     quiet_world \<lparr> w_subprocess_run :=
       (\<lambda>t cmd. if take 1 cmd = [u ''uv''] then Inl KeyboardInterrupt
                 else Inr \<lparr> returncode = 0, stderr = [] \<rparr>) \<rparr>"

text \<open>
  The graceful mode is switched on, the wait for the server is interrupted, and the
  server does not end within the bounded wait.
\<close>

definition graceful_interrupt_world :: world where
  "graceful_interrupt_world =
     quiet_world \<lparr> w_environ := [u ''HIVE_DEV_GRACEFUL'' \<mapsto> u ''1''],
                   w_proc_wait :=
                     (\<lambda>t tmo. case tmo of
                                 None \<Rightarrow> Inl KeyboardInterrupt
                               | Some n \<Rightarrow> Inl (TimeoutExpired (u ''timed out'') [])) \<rparr>"

text \<open>The server exits with code 3, in the default and in the graceful mode.\<close>

definition exit3_world :: world where
  "exit3_world =
     quiet_world \<lparr> w_subprocess_run :=
       (\<lambda>t cmd. if take 1 cmd = [u ''uv''] then Inr \<lparr> returncode = 3, stderr = [] \<rparr>
                 else Inr \<lparr> returncode = 0, stderr = [] \<rparr>) \<rparr>"

definition graceful_exit3_world :: world where
  "graceful_exit3_world =
     quiet_world \<lparr> w_environ := [u ''HIVE_DEV_GRACEFUL'' \<mapsto> u ''1''],
                   w_proc_wait := (\<lambda>t tmo. Inr 3) \<rparr>"

section \<open>Auxiliary facts\<close>

lemmas io_defs = ret_def raise_def seq_def try_except_def call_def py_print_def

lemmas world_defs =
  quiet_world_def running_world_def probe_error_world_def permission_denied_world_def
  no_docker_world_def start_timeout_world_def start_fail_world_def compose_broken_world_def
  no_compose_world_def silent_world_def root_only_world_def unresolvable_world_def keep_world_def
  interrupt_world_def graceful_interrupt_world_def exit3_world_def graceful_exit3_world_def

lemmas model_defs =
  resolve_compose_file_def docker_status_def is_postgres_dependency_active_def
  start_postgres_def ensure_postgres_dependency_def stop_postgres_by_container_def
  remove_postgres_by_container_def compose_stop_def compose_rm_def
  stop_postgres_dependency_def shutdown_windows_def killpg_of_proc_def shutdown_posix_def
  run_server_def serve_prelude_def serve_local_try_def keep_postgres_def use_graceful_def
  serve_local_finally_def serve_local_def getenv_def dict_get_def Let_def

lemmas cmd_defs =
  compose_args_def compose_up_cmd_def compose_stop_cmd_def compose_rm_cmd_def
  docker_stop_cmd_def docker_rm_cmd_def uvicorn_cmd_def

lemma u_eq_iff [simp]: "u a = u b \<longleftrightarrow> a = b"
  by (simp add: u_def inj_of_char)

lemma running_text_contains_marker:
  "str_contains (emoji_check @ u '' Running'') (emoji_check @ u '' Running'')"
  "str_contains emoji_check (emoji_check @ u '' Running'')"
  by (simp_all add: emoji_check_def u_def starts_with_def)

lemma stopped_text_lacks_marker:
  "\<not> str_contains (emoji_check @ u '' Running'') stopped_text"
  "\<not> str_contains emoji_check stopped_text"
  by (simp_all add: emoji_check_def stopped_text_def emoji_stop_def u_def starts_with_def)

lemma lower_words:
  "lower (u ''0'') = u ''0''" "lower (u ''1'') = u ''1''" "lower (u ''true'') = u ''true''"
  by (simp_all add: lower_def lower_cp_def u_def)

lemma invocations_append: "invocations (xs @ ys) = invocations xs @ invocations ys"
  by (induction xs rule: invocations.induct) simp_all

lemma stop_or_remove_covers_teardown:
  "is_stop_or_remove (SubprocessRun (compose_stop_cmd cf) tmo)"
  "is_stop_or_remove (SubprocessRun (compose_rm_cmd cf) tmo)"
  "is_stop_or_remove (SubprocessRun docker_stop_cmd tmo)"
  "is_stop_or_remove (SubprocessRun docker_rm_cmd tmo)"
  by (simp_all add: compose_stop_cmd_def compose_rm_cmd_def compose_args_def)

subsection \<open>What a statement may raise\<close>

lemma ro_ret: "raises_only Q (ret a)"
  by (simp add: raises_only_def ret_def)

lemma ro_print: "raises_only Q (py_print line)"
  by (simp add: raises_only_def py_print_def)

lemma ro_call: "(\<And>t e. answer t = Inl e \<Longrightarrow> Q e) \<Longrightarrow> raises_only Q (call ev answer)"
  by (simp add: raises_only_def call_def)

lemma ro_seq:
  assumes "raises_only Q m" and "\<And>a. raises_only Q (f a)"
  shows "raises_only Q (seq m f)"
  unfolding raises_only_def
proof (intro allI impI)
  fix s e
  assume raised: "fst (seq m f s) = Inl e"
  obtain r s' where ms: "m s = (r, s')" by (cases "m s")
  show "Q e"
  proof (cases r)
    case (Inl e')
    with ms raised have "fst (m s) = Inl e" by (simp add: seq_def)
    with assms(1) show ?thesis by (simp add: raises_only_def)
  next
    case (Inr a)
    with ms raised have "fst (f a s') = Inl e" by (simp add: seq_def)
    with assms(2) show ?thesis by (simp add: raises_only_def)
  qed
qed

lemma ro_try:
  assumes "raises_only R m" and "\<And>e. R e \<Longrightarrow> raises_only Q (h e)"
  shows "raises_only Q (try_except m h)"
  unfolding raises_only_def
proof (intro allI impI)
  fix s e
  assume raised: "fst (try_except m h s) = Inl e"
  obtain r s' where ms: "m s = (r, s')" by (cases "m s")
  show "Q e"
  proof (cases r)
    case (Inl e')
    with ms have "fst (m s) = Inl e'" by simp
    with assms(1) have "R e'" by (simp add: raises_only_def)
    moreover from Inl ms raised have "fst (h e' s') = Inl e" by (simp add: try_except_def)
    ultimately show ?thesis using assms(2) by (simp add: raises_only_def)
  next
    case (Inr a)
    with ms raised show ?thesis by (simp add: try_except_def)
  qed
qed

lemma ro_if:
  "(c \<Longrightarrow> raises_only Q m) \<Longrightarrow> (\<not> c \<Longrightarrow> raises_only Q n)
   \<Longrightarrow> raises_only Q (if c then m else n)"
  by simp

lemma ro_case_option:
  "(x = None \<Longrightarrow> raises_only Q m) \<Longrightarrow> (\<And>y. x = Some y \<Longrightarrow> raises_only Q (n y))
   \<Longrightarrow> raises_only Q (case x of None \<Rightarrow> m | Some y \<Rightarrow> n y)"
  by (cases x) simp_all

lemmas ro_intros = ro_ret ro_print ro_seq ro_if ro_case_option

lemma ro_run:
  assumes "\<forall>t cmd e. w_subprocess_run w t cmd = Inl e \<longrightarrow> handled_failure e"
  shows "raises_only handled_failure
           (call (SubprocessRun cmd tmo) (\<lambda>t. w_subprocess_run w t cmd))"
  using assms by (auto intro: ro_call)

lemma ro_handled:
  assumes "raises_only handled_failure m"
    and "\<And>e. is_TimeoutExpired e \<Longrightarrow> raises_only Q (h1 e)"
    and "\<And>e. is_FileNotFoundError e \<Longrightarrow> raises_only Q (h2 e)"
  shows "raises_only Q (try_except m (\<lambda>e. if is_TimeoutExpired e then h1 e
            else if is_FileNotFoundError e then h2 e else raise e))"
  using assms(1)
  by (rule ro_try) (auto simp: handled_failure_def assms(2,3))

lemma ro_resolve_compose_file:
  assumes "\<forall>t p e. w_path_resolve w t p = Inl e \<longrightarrow> is_FileNotFoundError e \<or> is_RuntimeError e"
    and "\<forall>t p e. w_path_exists w t p \<noteq> Inl e"
  shows "raises_only (\<lambda>e. False) (resolve_compose_file w wp)"
  unfolding resolve_compose_file_def
proof (rule ro_seq)
  show "raises_only (\<lambda>e. False)
          (try_except (call (PathResolve wp) (\<lambda>t. w_path_resolve w t wp))
             (\<lambda>e. if is_FileNotFoundError e \<or> is_RuntimeError e then ret wp else raise e))"
  proof (rule ro_try [where R = "\<lambda>e. is_FileNotFoundError e \<or> is_RuntimeError e"])
    show "raises_only (\<lambda>e. is_FileNotFoundError e \<or> is_RuntimeError e)
            (call (PathResolve wp) (\<lambda>t. w_path_resolve w t wp))"
      using assms(1) by (intro ro_call) blast
  qed (simp add: ro_ret)
next
  fix workspace
  have ex: "\<And>ev p. raises_only (\<lambda>e. False) (call ev (\<lambda>t. w_path_exists w t p))"
    using assms(2) by (intro ro_call) blast
  show "raises_only (\<lambda>e. False)
          (seq (call (PathExists (docker_compose_main workspace))
                  (\<lambda>t. w_path_exists w t (docker_compose_main workspace)))
             (\<lambda>main_exists.
                if main_exists then ret (Some (docker_compose_main workspace))
                else seq (call (PathExists (docker_compose_root workspace))
                            (\<lambda>t. w_path_exists w t (docker_compose_root workspace)))
                       (\<lambda>root_exists.
                          if root_exists then ret (Some (docker_compose_root workspace))
                          else ret None)))"
    by (intro ro_intros ex)
qed

lemma ro_compose_stop:
  assumes "\<forall>t cmd e. w_subprocess_run w t cmd = Inl e \<longrightarrow> handled_failure e"
  shows "raises_only (\<lambda>e. False) (compose_stop w cf)"
  unfolding compose_stop_def
  by (intro ro_handled ro_intros ro_run assms)

lemma ro_compose_rm:
  assumes "\<forall>t cmd e. w_subprocess_run w t cmd = Inl e \<longrightarrow> handled_failure e"
  shows "raises_only (\<lambda>e. False) (compose_rm w cf)"
  unfolding compose_rm_def
  by (intro ro_handled ro_intros ro_run assms)

lemma ro_stop_by_container:
  assumes "\<forall>t cmd e. w_subprocess_run w t cmd = Inl e \<longrightarrow> handled_failure e"
  shows "raises_only (\<lambda>e. False) (stop_postgres_by_container w)"
  unfolding stop_postgres_by_container_def Let_def
  by (intro ro_handled ro_intros ro_run assms)

lemma ro_remove_by_container:
  assumes "\<forall>t cmd e. w_subprocess_run w t cmd = Inl e \<longrightarrow> handled_failure e"
  shows "raises_only (\<lambda>e. False) (remove_postgres_by_container w)"
  unfolding remove_postgres_by_container_def Let_def
  by (intro ro_handled ro_intros ro_run assms)

lemma ro_stop_postgres_dependency:
  assumes "\<forall>t cmd e. w_subprocess_run w t cmd = Inl e \<longrightarrow> handled_failure e"
    and "\<forall>t p e. w_path_resolve w t p = Inl e \<longrightarrow> is_FileNotFoundError e \<or> is_RuntimeError e"
    and "\<forall>t p e. w_path_exists w t p \<noteq> Inl e"
  shows "raises_only (\<lambda>e. False) (stop_postgres_dependency w wp)"
  unfolding stop_postgres_dependency_def
  by (intro ro_intros ro_resolve_compose_file ro_compose_stop ro_compose_rm
        ro_stop_by_container ro_remove_by_container assms)

subsection \<open>What a statement adds to the trace\<close>

lemma emits_ret: "emits P (ret a)"
  by (simp add: emits_def ret_def)

lemma emits_raise: "emits P (raise e)"
  by (simp add: emits_def raise_def)

lemma emits_print: "P (Print line) \<Longrightarrow> emits P (py_print line)"
  by (simp add: emits_def py_print_def)

lemma emits_call: "P ev \<Longrightarrow> emits P (call ev answer)"
  by (simp add: emits_def call_def)

lemma emits_pure: "emits P (\<lambda>s. (r, s))"
  by (simp add: emits_def)

lemma emits_seq:
  assumes "emits P m" and "\<And>a. emits P (f a)"
  shows "emits P (seq m f)"
  unfolding emits_def
proof
  fix s
  obtain r s' where ms: "m s = (r, s')" by (cases "m s")
  with assms(1) obtain evs where evs: "s' = s @ evs" "\<forall>ev \<in> set evs. P ev"
    unfolding emits_def by (metis snd_conv)
  show "\<exists>evs. snd (seq m f s) = s @ evs \<and> (\<forall>ev \<in> set evs. P ev)"
  proof (cases r)
    case (Inl e)
    with ms evs show ?thesis by (auto simp: seq_def)
  next
    case (Inr a)
    from assms(2) obtain evs' where "snd (f a s') = s' @ evs'" "\<forall>ev \<in> set evs'. P ev"
      unfolding emits_def by blast
    with Inr ms evs show ?thesis by (auto simp: seq_def)
  qed
qed

lemma emits_try:
  assumes "emits P m" and "\<And>e. emits P (h e)"
  shows "emits P (try_except m h)"
  unfolding emits_def
proof
  fix s
  obtain r s' where ms: "m s = (r, s')" by (cases "m s")
  with assms(1) obtain evs where evs: "s' = s @ evs" "\<forall>ev \<in> set evs. P ev"
    unfolding emits_def by (metis snd_conv)
  show "\<exists>evs. snd (try_except m h s) = s @ evs \<and> (\<forall>ev \<in> set evs. P ev)"
  proof (cases r)
    case (Inr a)
    with ms evs show ?thesis by (auto simp: try_except_def)
  next
    case (Inl e)
    from assms(2) obtain evs' where "snd (h e s') = s' @ evs'" "\<forall>ev \<in> set evs'. P ev"
      unfolding emits_def by blast
    with Inl ms evs show ?thesis by (auto simp: try_except_def)
  qed
qed

lemma emits_if:
  "(c \<Longrightarrow> emits P m) \<Longrightarrow> (\<not> c \<Longrightarrow> emits P n) \<Longrightarrow> emits P (if c then m else n)"
  by simp

lemma emits_case_option:
  "emits P m \<Longrightarrow> (\<And>y. emits P (n y)) \<Longrightarrow> emits P (case x of None \<Rightarrow> m | Some y \<Rightarrow> n y)"
  by (cases x) simp_all

lemma emits_case_prod:
  "(\<And>a b. emits P (f a b)) \<Longrightarrow> emits P (case x of (a, b) \<Rightarrow> f a b)"
  by (cases x) simp

lemmas emits_intros =
  emits_ret emits_raise emits_print emits_call emits_pure emits_seq emits_try emits_if
  emits_case_option emits_case_prod

lemma emits_resolve_compose_file: "emits harmless (resolve_compose_file w wp)"
  unfolding resolve_compose_file_def by (intro emits_intros) (simp_all add: harmless_def)

lemma emits_start_postgres: "emits harmless (start_postgres w cf)"
  unfolding start_postgres_def
  by (intro emits_intros)
     (simp_all add: harmless_def compose_up_cmd_def docker_stop_cmd_def docker_rm_cmd_def)

lemma emits_ensure: "emits harmless (ensure_postgres_dependency w wp)"
  unfolding ensure_postgres_dependency_def Let_def
  by (intro emits_intros emits_resolve_compose_file emits_start_postgres)
     (simp_all add: harmless_def)

lemma emits_shutdown_windows: "emits harmless (shutdown_windows w)"
  unfolding shutdown_windows_def Let_def by (intro emits_intros) (simp_all add: harmless_def)

lemma emits_shutdown_posix: "emits harmless (shutdown_posix w)"
  unfolding shutdown_posix_def killpg_of_proc_def
  by (intro emits_intros) (simp_all add: harmless_def)

lemma emits_run_server: "emits harmless (run_server w h p running reload)"
  unfolding run_server_def Let_def
  by (intro emits_intros emits_shutdown_windows emits_shutdown_posix)
     (simp_all add: harmless_def uvicorn_cmd_def docker_stop_cmd_def docker_rm_cmd_def)

lemma emits_serve_prelude: "emits harmless (serve_prelude w wp host port)"
  unfolding serve_prelude_def Let_def
  by (intro emits_intros emits_ensure) (simp_all add: harmless_def)

lemma trace_serve_local_try:
  "\<exists>evs. snd (serve_local_try w wp host port reload s) = s @ evs
         \<and> (\<forall>ev \<in> set evs. harmless ev)"
proof -
  obtain r s1 where pre: "serve_prelude w wp host port s = (r, s1)"
    by (cases "serve_prelude w wp host port s")
  with emits_serve_prelude [of w wp host port] obtain evs where
    evs: "s1 = s @ evs" "\<forall>ev \<in> set evs. harmless ev"
    unfolding emits_def by (metis snd_conv)
  show ?thesis
  proof (cases r)
    case (Inl e)
    with pre evs show ?thesis by (simp add: serve_local_try_def)
  next
    case (Inr v)
    obtain h p running started where v: "v = (h, p, running, started)" by (cases v)
    from emits_run_server [of w h p running reload] obtain evs' where
      "snd (run_server w h p running reload s1) = s1 @ evs'" "\<forall>ev \<in> set evs'. harmless ev"
      unfolding emits_def by blast
    with Inr v pre evs show ?thesis
      by (auto simp: serve_local_try_def split: prod.splits)
  qed
qed

subsection \<open>The layers of the stopper, one by one\<close>

lemma trace_compose_rm:
  "\<exists>p. snd (compose_rm w cf s) = s @ SubprocessRun (compose_rm_cmd cf) (Some 30) # p
       \<and> invocations p = []"
  by (auto simp: compose_rm_def io_defs split: sum.splits)

lemma trace_remove_by_container:
  "\<exists>p. snd (remove_postgres_by_container w s) = s @ SubprocessRun docker_rm_cmd (Some 30) # p
       \<and> invocations p = []"
  by (auto simp: remove_postgres_by_container_def io_defs Let_def split: sum.splits)

lemma trace_stop_by_container:
  "\<exists>p. snd (stop_postgres_by_container w s) = s @ SubprocessRun docker_stop_cmd (Some 30) # p
       \<and> invocations p = []"
  by (auto simp: stop_postgres_by_container_def io_defs Let_def split: sum.splits)

lemma result_stop_by_container:
  "fst (stop_postgres_by_container w s) = Inr True \<longleftrightarrow>
     (\<exists>r. w_subprocess_run w (length s) docker_stop_cmd = Inr r \<and> returncode r = 0)"
  by (auto simp: stop_postgres_by_container_def io_defs Let_def split: sum.splits)

subsection \<open>The lifecycle driver after its \<open>try\<close> block\<close>

lemma serve_local_after_try:
  assumes "serve_local_try w wp host port reload s = ((Inr b, started), s1)"
  shows "serve_local w wp host port reload s =
           (case serve_local_finally w wp started s1 of
              (Inl e, s3) \<Rightarrow> (Inl e, s3) | (Inr x, s3) \<Rightarrow> (Inr b, s3))"
  using assms by (simp add: serve_local_def)

lemma keep_postgres_iff:
  "keep_postgres w \<longleftrightarrow>
     (\<exists>v. w_environ w (u ''HIVE_DEV_KEEP_POSTGRES'') = Some v
          \<and> lower v \<in> {u ''1'', u ''true'', u ''yes''})"
  by (auto simp: keep_postgres_def getenv_def dict_get_def lower_words split: option.splits)

subsection \<open>What the stopper reports\<close>

lemma starts_with_append [simp]: "starts_with x (x @ y)"
  by (simp add: starts_with_def)

lemma failures_reported_no_run:
  "\<forall>ev \<in> set xs. \<not> is_run ev \<Longrightarrow> failures_reported w t xs"
  by (induction w t xs rule: failures_reported.induct) simp_all

lemma failures_reported_append:
  "failures_reported w t xs \<Longrightarrow> failures_reported w (t + length xs) ys
   \<Longrightarrow> (case ys of [] \<Rightarrow> True | ev # rest \<Rightarrow> \<not> is_print ev)
   \<Longrightarrow> failures_reported w t (xs @ ys)"
proof (induction w t xs rule: failures_reported.induct)
  case (2 w t cmd tmo evs)
  then show ?case by (cases evs; cases ys) (auto split: if_splits)
qed simp_all

lemma failures_reported_layer:
  assumes "failures_reported w t xs" and "layer_trace w (t + length xs) ys"
  shows "failures_reported w t (xs @ ys)"
proof -
  from assms(2) have "case ys of [] \<Rightarrow> True | ev # rest \<Rightarrow> \<not> is_print ev"
    by (cases ys; cases "hd ys") (auto simp: layer_trace_def)
  with assms show ?thesis by (simp add: failures_reported_append layer_trace_def)
qed

lemmas msg_defs =
  msg_stopped_def msg_stop_issue_def msg_stop_timeout_def msg_stop_no_docker_def
  msg_removed_def msg_rm_issue_def msg_rm_timeout_def msg_rm_no_docker_def
  msg_direct_stop_timeout_def msg_direct_stop_no_docker_def msg_direct_stopped_def
  msg_direct_stop_issue_def msg_direct_removed_def msg_direct_rm_issue_def
  msg_direct_rm_timeout_def msg_direct_rm_no_docker_def

lemma layer_compose_stop:
  assumes "\<forall>t cmd e. w_subprocess_run w t cmd = Inl e \<longrightarrow> handled_failure e"
  shows "\<exists>v evs. compose_stop w cf s = (Inr v, s @ evs) \<and> layer_trace w (length s) evs"
proof (cases "w_subprocess_run w (length s) (compose_stop_cmd cf)")
  case (Inl e)
  with assms have "handled_failure e" by blast
  with Inl show ?thesis
    by (auto simp: compose_stop_def io_defs layer_trace_def msg_defs handled_failure_def)
next
  case (Inr r)
  then show ?thesis
    by (auto simp: compose_stop_def io_defs layer_trace_def msg_defs cmd_defs)
qed

lemma layer_compose_rm:
  assumes "\<forall>t cmd e. w_subprocess_run w t cmd = Inl e \<longrightarrow> handled_failure e"
  shows "\<exists>evs. compose_rm w cf s = (Inr (), s @ evs) \<and> layer_trace w (length s) evs"
proof (cases "w_subprocess_run w (length s) (compose_rm_cmd cf)")
  case (Inl e)
  with assms have "handled_failure e" by blast
  with Inl show ?thesis
    by (auto simp: compose_rm_def io_defs layer_trace_def msg_defs handled_failure_def)
next
  case (Inr r)
  then show ?thesis
    by (auto simp: compose_rm_def io_defs layer_trace_def msg_defs cmd_defs)
qed

lemma layer_stop_by_container:
  assumes "\<forall>t cmd e. w_subprocess_run w t cmd = Inl e \<longrightarrow> handled_failure e"
  shows "\<exists>v evs. stop_postgres_by_container w s = (Inr v, s @ evs) \<and> layer_trace w (length s) evs"
proof (cases "w_subprocess_run w (length s) docker_stop_cmd")
  case (Inl e)
  with assms have "handled_failure e" by blast
  with Inl show ?thesis
    by (auto simp: stop_postgres_by_container_def io_defs layer_trace_def msg_defs handled_failure_def)
next
  case (Inr r)
  then show ?thesis
    by (auto simp: stop_postgres_by_container_def io_defs layer_trace_def msg_defs Let_def)
qed

lemma layer_remove_by_container:
  assumes "\<forall>t cmd e. w_subprocess_run w t cmd = Inl e \<longrightarrow> handled_failure e"
  shows "\<exists>evs. remove_postgres_by_container w s = (Inr (), s @ evs) \<and> layer_trace w (length s) evs"
proof (cases "w_subprocess_run w (length s) docker_rm_cmd")
  case (Inl e)
  with assms have "handled_failure e" by blast
  with Inl show ?thesis
    by (auto simp: remove_postgres_by_container_def io_defs layer_trace_def msg_defs handled_failure_def)
next
  case (Inr r)
  then show ?thesis
    by (auto simp: remove_postgres_by_container_def io_defs layer_trace_def msg_defs Let_def)
qed

lemma emits_no_run_resolve_compose_file:
  "emits (\<lambda>ev. \<not> is_run ev) (resolve_compose_file w wp)"
  unfolding resolve_compose_file_def by (intro emits_intros) simp_all


lemma locator_trace:
  assumes "\<forall>t p e. w_path_resolve w t p = Inl e \<longrightarrow> is_FileNotFoundError e \<or> is_RuntimeError e"
    and "\<forall>t p e. w_path_exists w t p \<noteq> Inl e"
  shows "\<exists>cfo loc. resolve_compose_file w wp s = (Inr cfo, s @ loc)
           \<and> (\<forall>ev \<in> set loc. \<not> is_run ev)"
proof -
  obtain r sa where rs: "resolve_compose_file w wp s = (r, sa)"
    by (cases "resolve_compose_file w wp s")
  from ro_resolve_compose_file [OF assms, of wp] rs obtain cfo where "r = Inr cfo"
    by (cases r) (auto simp: raises_only_def dest: spec [of _ s])
  moreover from emits_no_run_resolve_compose_file [of w wp] rs obtain loc where
    "sa = s @ loc" "\<forall>ev \<in> set loc. \<not> is_run ev"
    unfolding emits_def by (metis snd_conv)
  ultimately show ?thesis using rs by blast
qed

section \<open>Claims about the compose locator and the status prober\<close>



text \<open>
  Claim C7. A failure of the status probe (any \<open>Exception\<close> the query raises, whatever
  its cause) counts as stopped: the status map falls back to stopped for both services,
  the activity check answers false, and the starter does not report the dependency as
  running.
\<close>

theorem probe_failure_is_stopped:
  assumes "w_get_main_status w (length s) workspace = Inl e" and "is_Exception e"
  shows "fst (docker_status w workspace s)
           = Inr [hive_postgres \<mapsto> stopped_text, u ''hive-api'' \<mapsto> stopped_text]
       \<and> (workspace = path_str wp \<longrightarrow>
            fst (is_postgres_dependency_active w wp s) = Inr False
          \<and> fst (ensure_postgres_dependency w wp s) = Inr (False, False))"
  using assms
  by (auto simp add: ensure_postgres_dependency_def docker_status_def
        is_postgres_dependency_active_def io_defs)

theorem probe_failure_is_stopped_witness:
  "fst (docker_status probe_error_world (path_str [u ''ws'']) [])
     = Inr [hive_postgres \<mapsto> stopped_text, u ''hive-api'' \<mapsto> stopped_text]
   \<and> fst (is_postgres_dependency_active probe_error_world [u ''ws''] []) = Inr False
   \<and> fst (ensure_postgres_dependency probe_error_world [u ''ws''] []) = Inr (False, False)"
  using probe_failure_is_stopped [where w = probe_error_world and s = "[]"
          and workspace = "path_str [u ''ws'']" and wp = "[u ''ws'']"
          and e = "OtherException (u ''docker daemon unreachable'')"]
  by (simp add: world_defs is_Exception_def)

section \<open>Claims about the dependency starter\<close>

text \<open>
  Claim C3. When the status probe reports the dependency as running, the starter returns
  \<open>(True, False)\<close>; the only things it does are the probe and one console line, so no
  start command is issued and neither the compose file nor the \<open>.env\<close> file is looked
  for.
\<close>

theorem ensure_running_noop:
  assumes "w_get_main_status w (length s) (path_str wp) = Inr status"
    and "str_contains (emoji_check @ u '' Running'') (dict_get status hive_postgres [])"
  shows "ensure_postgres_dependency w wp s =
           (Inr (True, False), s @ [GetMainStatus (path_str wp), Print msg_already_running])"
  using assms by (simp add: ensure_postgres_dependency_def io_defs)

theorem ensure_running_noop_witness:
  "ensure_postgres_dependency running_world [u ''ws''] [] =
     (Inr (True, False), [GetMainStatus (path_str [u ''ws'']), Print msg_already_running])"
  using ensure_running_noop [where w = running_world and wp = "[u ''ws'']" and s = "[]"
          and status = "[hive_postgres \<mapsto> emoji_check @ u '' Running'']"]
  by (simp add: world_defs dict_get_def running_text_contains_marker)

text \<open>
  Claim C6. When the probe does not report the dependency as running and neither
  candidate compose file exists, the starter returns \<open>(False, False)\<close> and prints the
  instruction to run the installation; apart from the probe it only looks at the file
  system, so no process is invoked.
\<close>

theorem ensure_missing_descriptor:
  assumes "w_get_main_status w (length s) (path_str wp) = Inr status"
    and "\<not> str_contains (emoji_check @ u '' Running'') (dict_get status hive_postgres [])"
    and "(\<forall>t. w_path_resolve w t wp = Inr workspace)
         \<or> (\<forall>t. \<exists>e. w_path_resolve w t wp = Inl e
                 \<and> (is_FileNotFoundError e \<or> is_RuntimeError e) \<and> workspace = wp)"
    and "\<forall>t. w_path_exists w t (docker_compose_main workspace) = Inr False"
    and "\<forall>t. w_path_exists w t (docker_compose_root workspace) = Inr False"
  shows "ensure_postgres_dependency w wp s =
           (Inr (False, False),
            s @ [GetMainStatus (path_str wp), PathResolve wp,
                 PathExists (docker_compose_main workspace),
                 PathExists (docker_compose_root workspace),
                 Print msg_compose_not_found])"
proof -
  from assms(3) have "w_path_resolve w (Suc (length s)) wp = Inr workspace
         \<or> (\<exists>e. w_path_resolve w (Suc (length s)) wp = Inl e
                 \<and> (is_FileNotFoundError e \<or> is_RuntimeError e) \<and> workspace = wp)"
    by blast
  with assms(1,2,4,5) show ?thesis
    by (auto simp add: ensure_postgres_dependency_def resolve_compose_file_def io_defs)
qed

theorem ensure_missing_descriptor_witness:
  "ensure_postgres_dependency no_compose_world [u ''ws''] [] =
     (Inr (False, False),
      [GetMainStatus (path_str [u ''ws'']), PathResolve [u ''ws''],
       PathExists (docker_compose_main [u ''ws'']), PathExists (docker_compose_root [u ''ws'']),
       Print msg_compose_not_found])"
  using ensure_missing_descriptor [where w = no_compose_world and wp = "[u ''ws'']"
          and s = "[]" and workspace = "[u ''ws'']"
          and status = "[hive_postgres \<mapsto> stopped_text]"]
  by (simp add: world_defs dict_get_def stopped_text_lacks_marker)

text \<open>
  Claim C4, as the code has it. When the start invocation, which is bounded by 60
  seconds, exits with a non-zero code, the starter returns \<open>(False, False)\<close> and prints
  the captured error output; when it runs into the time limit, the starter returns
  \<open>(False, False)\<close> and prints a fixed line that names the timeout. In both cases the
  starter returns normally.
\<close>

theorem start_failure_is_reported:
  assumes "w_get_main_status w (length s) (path_str wp) = Inr status"
    and "\<not> str_contains (emoji_check @ u '' Running'') (dict_get status hive_postgres [])"
    and "resolve_compose_file w wp (s @ [GetMainStatus (path_str wp)]) = (Inr (Some cf), s')"
    and "w_path_exists w (length s') (pjoin wp (u ''.env'')) = Inr True"
    and "w_subprocess_run w (length s' + 2) (compose_up_cmd cf) = out"
  shows "(\<forall>r. out = Inr r \<and> returncode r \<noteq> 0 \<longrightarrow>
            ensure_postgres_dependency w wp s =
              (Inr (False, False),
               s' @ [PathExists (pjoin wp (u ''.env'')), Print msg_starting_postgres,
                     SubprocessRun (compose_up_cmd cf) (Some 60),
                     Print (msg_start_failed (stderr r))]))
       \<and> (\<forall>msg captured. out = Inl (TimeoutExpired msg captured) \<longrightarrow>
            ensure_postgres_dependency w wp s =
              (Inr (False, False),
               s' @ [PathExists (pjoin wp (u ''.env'')), Print msg_starting_postgres,
                     SubprocessRun (compose_up_cmd cf) (Some 60),
                     Print msg_start_timeout]))"
  using assms
  by (auto simp add: ensure_postgres_dependency_def start_postgres_def io_defs Let_def)

theorem start_failure_is_reported_witness:
  "ensure_postgres_dependency start_fail_world [u ''ws''] [] =
     (Inr (False, False),
      [GetMainStatus (path_str [u ''ws'']), PathResolve [u ''ws''],
       PathExists (docker_compose_main [u ''ws'']), PathExists (pjoin [u ''ws''] (u ''.env'')),
       Print msg_starting_postgres,
       SubprocessRun (compose_up_cmd (docker_compose_main [u ''ws''])) (Some 60),
       Print (msg_start_failed (u ''port is already allocated''))])
   \<and> ensure_postgres_dependency start_timeout_world [u ''ws''] [] =
     (Inr (False, False),
      [GetMainStatus (path_str [u ''ws'']), PathResolve [u ''ws''],
       PathExists (docker_compose_main [u ''ws'']), PathExists (pjoin [u ''ws''] (u ''.env'')),
       Print msg_starting_postgres,
       SubprocessRun (compose_up_cmd (docker_compose_main [u ''ws''])) (Some 60),
       Print msg_start_timeout])"
  using start_failure_is_reported [where w = start_fail_world and wp = "[u ''ws'']"
          and s = "[]" and status = "[hive_postgres \<mapsto> stopped_text]"
          and cf = "docker_compose_main [u ''ws'']"
          and s' = "[GetMainStatus (path_str [u ''ws'']), PathResolve [u ''ws''],
                     PathExists (docker_compose_main [u ''ws''])]"
          and out = "Inr \<lparr> returncode = 1, stderr = u ''port is already allocated'' \<rparr>"]
        start_failure_is_reported [where w = start_timeout_world and wp = "[u ''ws'']"
          and s = "[]" and status = "[hive_postgres \<mapsto> stopped_text]"
          and cf = "docker_compose_main [u ''ws'']"
          and s' = "[GetMainStatus (path_str [u ''ws'']), PathResolve [u ''ws''],
                     PathExists (docker_compose_main [u ''ws''])]"
          and out = "Inl (TimeoutExpired (u ''timed out after 60 seconds'') (u ''pull stalled''))"]
  by (simp add: world_defs dict_get_def stopped_text_lacks_marker resolve_compose_file_def
        io_defs)

text \<open>
  Claim C4 as stated asks for the captured error text to be reported on a timeout as
  well. In a workspace where the start invocation times out after writing
  \<open>pull stalled\<close> to its error output, the starter returns \<open>(False, False)\<close> and no
  console line contains that text.
\<close>

theorem start_timeout_text_counterexample:
  "w_subprocess_run start_timeout_world 5 (compose_up_cmd (docker_compose_main [u ''ws'']))
     = Inl (TimeoutExpired (u ''timed out after 60 seconds'') (u ''pull stalled''))
   \<and> fst (ensure_postgres_dependency start_timeout_world [u ''ws''] []) = Inr (False, False)
   \<and> \<not> list_ex (reports (u ''pull stalled''))
         (snd (ensure_postgres_dependency start_timeout_world [u ''ws''] []))"
  by (simp add: world_defs ensure_postgres_dependency_def resolve_compose_file_def
        start_postgres_def io_defs Let_def dict_get_def stopped_text_def hive_postgres_def
        msg_starting_postgres_def msg_start_timeout_def emoji_search_def emoji_cross_def
        emoji_check_def emoji_stop_def u_def starts_with_def)

section \<open>Claims about the dependency stopper\<close>

text \<open>
  Claim C1, as the code has it. Whenever every process invocation of the teardown
  either completes (with any exit code), runs into its time limit or finds no
  container runtime, and the compose file can be looked for, the teardown returns
  normally, and every invocation that failed is followed at once by a warning line on
  the console; the one exception is a stop or remove by container name that exits
  non-zero with blank error output, after which nothing is printed. This covers every
  combination of compose file present or absent, stop succeeding or failing, and
  runtime tool present or absent.
\<close>

theorem teardown_completes:
  assumes run: "\<forall>t cmd e. w_subprocess_run w t cmd = Inl e
             \<longrightarrow> is_TimeoutExpired e \<or> is_FileNotFoundError e"
    and res: "\<forall>t p e. w_path_resolve w t p = Inl e
             \<longrightarrow> is_FileNotFoundError e \<or> is_RuntimeError e"
    and ex: "\<forall>t p e. w_path_exists w t p \<noteq> Inl e"
  shows "fst (stop_postgres_dependency w wp s) = Inr ()
       \<and> failures_reported w (length s)
           (drop (length s) (snd (stop_postgres_dependency w wp s)))"
proof -
  from run have h: "\<forall>t cmd e. w_subprocess_run w t cmd = Inl e \<longrightarrow> handled_failure e"
    by (simp add: handled_failure_def)
  from locator_trace [OF res ex, of wp s] obtain cfo loc where
    loc: "resolve_compose_file w wp s = (Inr cfo, s @ loc)" "\<forall>ev \<in> set loc. \<not> is_run ev"
    by blast
  have fr_loc: "failures_reported w (length s) loc"
    using loc(2) by (rule failures_reported_no_run)
  have "\<exists>evs. stop_postgres_dependency w wp s = (Inr (), s @ evs)
           \<and> failures_reported w (length s) evs"
  proof (cases cfo)
    case None
    from layer_stop_by_container [OF h, of "s @ loc"] obtain v u1 where
      u1: "stop_postgres_by_container w (s @ loc) = (Inr v, (s @ loc) @ u1)"
          "layer_trace w (length (s @ loc)) u1" by blast
    have "layer_trace w (length s + length (loc)) u1"
      using u1(2) by (simp add: add.assoc)
    with fr_loc have fr1: "failures_reported w (length s) ((loc) @ u1)"
      by (rule failures_reported_layer)
    show ?thesis
    proof (cases v)
      case True
      from layer_remove_by_container [OF h, of "(s @ loc) @ u1"] obtain u2 where
        u2: "remove_postgres_by_container w ((s @ loc) @ u1) = (Inr (), ((s @ loc) @ u1) @ u2)"
            "layer_trace w (length ((s @ loc) @ u1)) u2" by blast
      have "layer_trace w (length s + length ((loc @ u1))) u2"
        using u2(2) by (simp add: add.assoc)
      with fr1 have "failures_reported w (length s) (((loc @ u1)) @ u2)"
        by (rule failures_reported_layer)
      moreover have "stop_postgres_dependency w wp s = (Inr (), s @ ((loc @ u1) @ u2))"
        using loc(1) None u1(1) True u2(1)
        by (simp add: stop_postgres_dependency_def io_defs)
      ultimately show ?thesis by blast
    next
      case False
      have "stop_postgres_dependency w wp s = (Inr (), s @ (loc @ u1))"
        using loc(1) None u1(1) False
        by (simp add: stop_postgres_dependency_def io_defs)
      with fr1 show ?thesis by blast
    qed
  next
    case (Some cf)
    from layer_compose_stop [OF h, of cf "s @ loc"] obtain v0 u1 where
      u1: "compose_stop w cf (s @ loc) = (Inr v0, (s @ loc) @ u1)"
          "layer_trace w (length (s @ loc)) u1" by blast
    have "layer_trace w (length s + length (loc)) u1"
      using u1(2) by (simp add: add.assoc)
    with fr_loc have fr1: "failures_reported w (length s) ((loc) @ u1)"
      by (rule failures_reported_layer)
    show ?thesis
    proof (cases v0)
      case True
      from layer_compose_rm [OF h, of cf "(s @ loc) @ u1"] obtain u3 where
        u3: "compose_rm w cf ((s @ loc) @ u1) = (Inr (), ((s @ loc) @ u1) @ u3)"
            "layer_trace w (length ((s @ loc) @ u1)) u3" by blast
      have "layer_trace w (length s + length ((loc @ u1))) u3"
        using u3(2) by (simp add: add.assoc)
      with fr1 have "failures_reported w (length s) (((loc @ u1)) @ u3)"
        by (rule failures_reported_layer)
      moreover have "stop_postgres_dependency w wp s = (Inr (), s @ ((loc @ u1) @ u3))"
        using loc(1) Some u1(1) True u3(1)
        by (simp add: stop_postgres_dependency_def io_defs)
      ultimately show ?thesis by blast
    next
      case False
      from layer_stop_by_container [OF h, of "(s @ loc) @ u1"] obtain v u2 where
        u2: "stop_postgres_by_container w ((s @ loc) @ u1) = (Inr v, ((s @ loc) @ u1) @ u2)"
            "layer_trace w (length ((s @ loc) @ u1)) u2" by blast
      have "layer_trace w (length s + length ((loc @ u1))) u2"
        using u2(2) by (simp add: add.assoc)
      with fr1 have fr2: "failures_reported w (length s) (((loc @ u1)) @ u2)"
        by (rule failures_reported_layer)
      from layer_compose_rm [OF h, of cf "((s @ loc) @ u1) @ u2"] obtain u3 where
        u3: "compose_rm w cf (((s @ loc) @ u1) @ u2) = (Inr (), (((s @ loc) @ u1) @ u2) @ u3)"
            "layer_trace w (length (((s @ loc) @ u1) @ u2)) u3" by blast
      have "layer_trace w (length s + length (((loc @ u1) @ u2))) u3"
        using u3(2) by (simp add: add.assoc)
      with fr2 have "failures_reported w (length s) ((((loc @ u1) @ u2)) @ u3)"
        by (rule failures_reported_layer)
      moreover have "stop_postgres_dependency w wp s = (Inr (), s @ (((loc @ u1) @ u2) @ u3))"
        using loc(1) Some u1(1) False u2(1) u3(1)
        by (simp add: stop_postgres_dependency_def io_defs)
      ultimately show ?thesis by blast
    qed
  qed
  then show ?thesis by auto
qed

theorem teardown_completes_witness:
  "fst (stop_postgres_dependency no_docker_world [u ''ws''] []) = Inr ()
   \<and> failures_reported no_docker_world 0
        (snd (stop_postgres_dependency no_docker_world [u ''ws''] []))
   \<and> fst (stop_postgres_dependency start_timeout_world [u ''ws''] []) = Inr ()
   \<and> failures_reported start_timeout_world 0
        (snd (stop_postgres_dependency start_timeout_world [u ''ws''] []))
   \<and> fst (stop_postgres_dependency start_fail_world [u ''ws''] []) = Inr ()
   \<and> failures_reported start_fail_world 0
        (snd (stop_postgres_dependency start_fail_world [u ''ws''] []))
   \<and> fst (stop_postgres_dependency no_compose_world [u ''ws''] []) = Inr ()
   \<and> failures_reported no_compose_world 0
        (snd (stop_postgres_dependency no_compose_world [u ''ws''] []))
   \<and> fst (stop_postgres_dependency silent_world [u ''ws''] []) = Inr ()
   \<and> failures_reported silent_world 0
        (snd (stop_postgres_dependency silent_world [u ''ws''] []))"
  using teardown_completes [where w = no_docker_world and wp = "[u ''ws'']" and s = "[]"]
        teardown_completes [where w = start_timeout_world and wp = "[u ''ws'']" and s = "[]"]
        teardown_completes [where w = start_fail_world and wp = "[u ''ws'']" and s = "[]"]
        teardown_completes [where w = no_compose_world and wp = "[u ''ws'']" and s = "[]"]
        teardown_completes [where w = silent_world and wp = "[u ''ws'']" and s = "[]"]
  by (simp add: world_defs)

text \<open>
  Claim C1 as stated has every failure reported. In a workspace without a compose
  file, where the stop by container name exits with code 1 and blank error output, the
  teardown returns normally after that one invocation and prints nothing at all.
\<close>

theorem teardown_silent_failure_counterexample:
  "w_subprocess_run silent_world 3 docker_stop_cmd = Inr \<lparr> returncode = 1, stderr = u ''  '' \<rparr>
   \<and> stop_postgres_dependency silent_world [u ''ws''] []
       = (Inr (), [PathResolve [u ''ws''], PathExists (docker_compose_main [u ''ws'']),
                   PathExists (docker_compose_root [u ''ws'']),
                   SubprocessRun docker_stop_cmd (Some 30)])
   \<and> filter is_print (snd (stop_postgres_dependency silent_world [u ''ws''] [])) = []"
  by (simp add: world_defs model_defs io_defs strip_def is_space_def u_def)

text \<open>
  The hypotheses above leave out the failures of an invocation that the stopper has no
  handler for. Where the container runtime is found but may not be executed, the error
  of the first stop invocation leaves the teardown.
\<close>

lemma teardown_unhandled_error_escapes:
  "fst (stop_postgres_dependency permission_denied_world [u ''ws''] [])
     = Inl (OSError (u ''Permission denied''))"
  by (simp add: world_defs stop_postgres_dependency_def resolve_compose_file_def
        compose_stop_def io_defs)

text \<open>
  Claim C2. In the teardown, when a compose descriptor exists, the compose stop exits
  non-zero and the stop by name succeeds, the invocations are: compose stop, stop by
  name, compose remove. When no descriptor exists, the stop by name is followed by the
  remove by name exactly when the stop by name succeeded, and no compose command is
  issued.
\<close>

theorem teardown_fallback_chain:
  "(resolve_compose_file w wp s = (Inr (Some cf), s')
      \<and> (\<forall>t. \<exists>r. w_subprocess_run w t (compose_stop_cmd cf) = Inr r \<and> returncode r \<noteq> 0)
      \<and> (\<forall>t. \<exists>r. w_subprocess_run w t docker_stop_cmd = Inr r \<and> returncode r = 0)
    \<longrightarrow> invocations (drop (length s') (snd (stop_postgres_dependency w wp s)))
          = [compose_stop_cmd cf, docker_stop_cmd, compose_rm_cmd cf])
 \<and> (resolve_compose_file w wp s = (Inr None, s')
    \<longrightarrow> invocations (drop (length s') (snd (stop_postgres_dependency w wp s)))
          = (if \<exists>r. w_subprocess_run w (length s') docker_stop_cmd = Inr r \<and> returncode r = 0
             then [docker_stop_cmd, docker_rm_cmd] else [docker_stop_cmd]))"
proof (intro conjI impI)
  assume a: "resolve_compose_file w wp s = (Inr (Some cf), s')
      \<and> (\<forall>t. \<exists>r. w_subprocess_run w t (compose_stop_cmd cf) = Inr r \<and> returncode r \<noteq> 0)
      \<and> (\<forall>t. \<exists>r. w_subprocess_run w t docker_stop_cmd = Inr r \<and> returncode r = 0)"
  then obtain r1 where r1: "w_subprocess_run w (length s') (compose_stop_cmd cf) = Inr r1"
      "returncode r1 \<noteq> 0" by blast
  from a obtain r2 where r2: "w_subprocess_run w (Suc (Suc (length s'))) docker_stop_cmd = Inr r2"
      "returncode r2 = 0" by blast
  define sb where "sb = s' @ [SubprocessRun (compose_stop_cmd cf) (Some 30),
      Print (msg_stop_issue (strip (stderr r1))),
      SubprocessRun docker_stop_cmd (Some 30), Print msg_direct_stopped]"
  have "stop_postgres_dependency w wp s = compose_rm w cf sb"
    using a r1 r2
    by (simp add: stop_postgres_dependency_def compose_stop_def stop_postgres_by_container_def
        io_defs sb_def)
  moreover obtain p where
    "snd (compose_rm w cf sb) = sb @ SubprocessRun (compose_rm_cmd cf) (Some 30) # p"
    "invocations p = []" using trace_compose_rm by blast
  ultimately show "invocations (drop (length s') (snd (stop_postgres_dependency w wp s)))
          = [compose_stop_cmd cf, docker_stop_cmd, compose_rm_cmd cf]"
    by (simp add: sb_def invocations_append)
next
  assume a: "resolve_compose_file w wp s = (Inr None, s')"
  obtain p where
    p: "snd (stop_postgres_by_container w s') = s' @ SubprocessRun docker_stop_cmd (Some 30) # p"
    "invocations p = []" using trace_stop_by_container by blast
  obtain res sb where st: "stop_postgres_by_container w s' = (res, sb)"
    by (cases "stop_postgres_by_container w s'")
  with p have sb: "sb = s' @ SubprocessRun docker_stop_cmd (Some 30) # p" by simp
  show "invocations (drop (length s') (snd (stop_postgres_dependency w wp s)))
          = (if \<exists>r. w_subprocess_run w (length s') docker_stop_cmd = Inr r \<and> returncode r = 0
             then [docker_stop_cmd, docker_rm_cmd] else [docker_stop_cmd])"
  proof (cases "res = Inr True")
    case True
    with st have ok:
      "\<exists>r. w_subprocess_run w (length s') docker_stop_cmd = Inr r \<and> returncode r = 0"
      using result_stop_by_container [of w s'] by simp
    from True st a have "stop_postgres_dependency w wp s = remove_postgres_by_container w sb"
      by (simp add: stop_postgres_dependency_def io_defs)
    moreover obtain q where
      "snd (remove_postgres_by_container w sb) = sb @ SubprocessRun docker_rm_cmd (Some 30) # q"
      "invocations q = []" using trace_remove_by_container by blast
    ultimately show ?thesis using ok sb p(2) by (simp add: invocations_append)
  next
    case False
    with st have nok:
      "\<not> (\<exists>r. w_subprocess_run w (length s') docker_stop_cmd = Inr r \<and> returncode r = 0)"
      using result_stop_by_container [of w s'] by simp
    from False st a have "snd (stop_postgres_dependency w wp s) = sb"
      by (cases res) (auto simp add: stop_postgres_dependency_def io_defs)
    then show ?thesis using nok sb p(2) by (simp add: invocations_append)
  qed
qed

theorem teardown_fallback_chain_witness:
  "invocations (snd (stop_postgres_dependency compose_broken_world [u ''ws''] []))
     = [compose_stop_cmd (docker_compose_main [u ''ws'']), docker_stop_cmd,
        compose_rm_cmd (docker_compose_main [u ''ws''])]
   \<and> invocations (snd (stop_postgres_dependency no_compose_world [u ''ws''] []))
     = [docker_stop_cmd, docker_rm_cmd]
   \<and> invocations (snd (stop_postgres_dependency
                          (no_compose_world \<lparr> w_subprocess_run := w_subprocess_run start_fail_world \<rparr>)
                          [u ''ws''] []))
     = [docker_stop_cmd]"
  using teardown_fallback_chain [where w = compose_broken_world and wp = "[u ''ws'']"
          and s = "[]" and cf = "docker_compose_main [u ''ws'']"
          and s' = "[PathResolve [u ''ws''], PathExists (docker_compose_main [u ''ws''])]"]
        teardown_fallback_chain [where w = no_compose_world and wp = "[u ''ws'']"
          and s = "[]"
          and s' = "[PathResolve [u ''ws''], PathExists (docker_compose_main [u ''ws'']),
                     PathExists (docker_compose_root [u ''ws''])]"]
        teardown_fallback_chain [where
              w = "no_compose_world \<lparr> w_subprocess_run := w_subprocess_run start_fail_world \<rparr>"
          and wp = "[u ''ws'']" and s = "[]"
          and s' = "[PathResolve [u ''ws''], PathExists (docker_compose_main [u ''ws'']),
                     PathExists (docker_compose_root [u ''ws''])]"]
  by (simp add: world_defs model_defs io_defs cmd_defs)

section \<open>Claims about the lifecycle driver\<close>

text \<open>
  Claim C5. When \<open>HIVE_DEV_KEEP_POSTGRES\<close> is set to \<open>1\<close>, \<open>true\<close> or \<open>yes\<close> (in
  any letter case), a whole run of \<open>serve_local\<close> issues no stop and no remove
  invocation, and its last action is the console line that says the cleanup was skipped.
  When the variable is absent or has any other value and the \<open>try\<close> block has returned,
  the teardown proceeds: if this run started the dependency, what follows is the
  teardown; if not, the exit-time probe is made and the teardown follows exactly when
  the probe shows the dependency active.
\<close>

theorem keep_override:
  "((\<exists>v. w_environ w (u ''HIVE_DEV_KEEP_POSTGRES'') = Some v
          \<and> lower v \<in> {u ''1'', u ''true'', u ''yes''})
     \<longrightarrow> (\<exists>evs. snd (serve_local w wp host port reload s) = s @ evs @ [Print msg_cleanup_skipped]
              \<and> (\<forall>ev \<in> set evs. \<not> is_stop_or_remove ev)))
 \<and> ((w_environ w (u ''HIVE_DEV_KEEP_POSTGRES'') = None
        \<or> (\<exists>v. w_environ w (u ''HIVE_DEV_KEEP_POSTGRES'') = Some v
              \<and> lower v \<notin> {u ''1'', u ''true'', u ''yes''}))
      \<and> serve_local_try w wp host port reload s = ((Inr b, started), s')
     \<longrightarrow> (started \<longrightarrow>
            serve_local w wp host port reload s =
              (case stop_postgres_dependency w wp s' of
                 (Inl e, s3) \<Rightarrow> (Inl e, s3) | (Inr x, s3) \<Rightarrow> (Inr b, s3)))
       \<and> (\<not> started \<longrightarrow>
            (\<forall>status. w_get_main_status w (length s') (path_str wp) = Inr status \<longrightarrow>
               serve_local w wp host port reload s =
                 (if str_contains emoji_check (dict_get status hive_postgres [])
                  then case stop_postgres_dependency w wp (s' @ [GetMainStatus (path_str wp)]) of
                         (Inl e, s3) \<Rightarrow> (Inl e, s3) | (Inr x, s3) \<Rightarrow> (Inr b, s3)
                  else (Inr b, s' @ [GetMainStatus (path_str wp)])))))"
proof (intro conjI impI)
  assume "\<exists>v. w_environ w (u ''HIVE_DEV_KEEP_POSTGRES'') = Some v
          \<and> lower v \<in> {u ''1'', u ''true'', u ''yes''}"
  then have keep: "keep_postgres w" by (simp add: keep_postgres_iff)
  obtain r started0 sa where
    t: "serve_local_try w wp host port reload s = ((r, started0), sa)"
    by (cases "serve_local_try w wp host port reload s") auto
  from trace_serve_local_try [of w wp host port reload s] t obtain evs where
    evs: "sa = s @ evs" "\<forall>ev \<in> set evs. \<not> is_stop_or_remove ev"
    by (auto simp: harmless_def)
  show "\<exists>evs. snd (serve_local w wp host port reload s) = s @ evs @ [Print msg_cleanup_skipped]
              \<and> (\<forall>ev \<in> set evs. \<not> is_stop_or_remove ev)"
  proof (cases "\<exists>e. r = Inl e \<and> is_OSError e")
    case True
    then obtain e where "r = Inl e" "is_OSError e" by blast
    with t keep evs have "snd (serve_local w wp host port reload s)
        = s @ (evs @ [Print (msg_server_failed e)]) @ [Print msg_cleanup_skipped]"
      by (simp add: serve_local_def serve_local_finally_def io_defs)
    moreover have "\<forall>ev \<in> set (evs @ [Print (msg_server_failed e)]). \<not> is_stop_or_remove ev"
      using evs by simp
    ultimately show ?thesis by blast
  next
    case False
    with t keep evs have "snd (serve_local w wp host port reload s)
        = s @ evs @ [Print msg_cleanup_skipped]"
      by (cases r) (auto simp add: serve_local_def serve_local_finally_def io_defs)
    with evs show ?thesis by blast
  qed
next
  assume a: "(w_environ w (u ''HIVE_DEV_KEEP_POSTGRES'') = None
        \<or> (\<exists>v. w_environ w (u ''HIVE_DEV_KEEP_POSTGRES'') = Some v
              \<and> lower v \<notin> {u ''1'', u ''true'', u ''yes''}))
      \<and> serve_local_try w wp host port reload s = ((Inr b, started), s')"
  then have nokeep: "\<not> keep_postgres w" by (auto simp: keep_postgres_iff)
  from a have t: "serve_local_try w wp host port reload s = ((Inr b, started), s')" by simp
  assume started
  with nokeep show "serve_local w wp host port reload s =
              (case stop_postgres_dependency w wp s' of
                 (Inl e, s3) \<Rightarrow> (Inl e, s3) | (Inr x, s3) \<Rightarrow> (Inr b, s3))"
    by (simp add: serve_local_after_try [OF t] serve_local_finally_def)
next
  assume a: "(w_environ w (u ''HIVE_DEV_KEEP_POSTGRES'') = None
        \<or> (\<exists>v. w_environ w (u ''HIVE_DEV_KEEP_POSTGRES'') = Some v
              \<and> lower v \<notin> {u ''1'', u ''true'', u ''yes''}))
      \<and> serve_local_try w wp host port reload s = ((Inr b, started), s')"
  then have nokeep: "\<not> keep_postgres w" by (auto simp: keep_postgres_iff)
  from a have t: "serve_local_try w wp host port reload s = ((Inr b, started), s')" by simp
  assume "\<not> started"
  with nokeep show "\<forall>status. w_get_main_status w (length s') (path_str wp) = Inr status \<longrightarrow>
               serve_local w wp host port reload s =
                 (if str_contains emoji_check (dict_get status hive_postgres [])
                  then case stop_postgres_dependency w wp (s' @ [GetMainStatus (path_str wp)]) of
                         (Inl e, s3) \<Rightarrow> (Inl e, s3) | (Inr x, s3) \<Rightarrow> (Inr b, s3)
                  else (Inr b, s' @ [GetMainStatus (path_str wp)]))"
    by (simp add: serve_local_after_try [OF t] serve_local_finally_def
        is_postgres_dependency_active_def io_defs)
qed

theorem keep_override_witness:
  "fst (serve_local keep_world [u ''ws''] None None True []) = Inr True
   \<and> last (snd (serve_local keep_world [u ''ws''] None None True [])) = Print msg_cleanup_skipped
   \<and> invocations (snd (serve_local keep_world [u ''ws''] None None True []))
       = [compose_up_cmd (docker_compose_main [u ''ws'']), uvicorn_cmd (u ''0.0.0.0'') 8886 True]
   \<and> fst (serve_local quiet_world [u ''ws''] None None True []) = Inr True
   \<and> invocations (snd (serve_local quiet_world [u ''ws''] None None True []))
       = [compose_up_cmd (docker_compose_main [u ''ws'']), uvicorn_cmd (u ''0.0.0.0'') 8886 True,
          compose_stop_cmd (docker_compose_main [u ''ws'']),
          compose_rm_cmd (docker_compose_main [u ''ws''])]
   \<and> fst (serve_local running_world [u ''ws''] None None True []) = Inr True
   \<and> invocations (snd (serve_local running_world [u ''ws''] None None True []))
       = [uvicorn_cmd (u ''0.0.0.0'') 8886 True,
          compose_stop_cmd (docker_compose_main [u ''ws'']),
          compose_rm_cmd (docker_compose_main [u ''ws''])]"
  using keep_override [where w = keep_world and wp = "[u ''ws'']" and host = None
          and port = None and reload = True and s = "[]"]
        keep_override [where w = quiet_world and wp = "[u ''ws'']" and host = None
          and port = None and reload = True and s = "[]" and b = True and started = True
          and s' = "[Print (msg_server_starting (u ''0.0.0.0'') 8886),
                     GetMainStatus (path_str [u ''ws'']), PathResolve [u ''ws''],
                     PathExists (docker_compose_main [u ''ws'']),
                     PathExists (pjoin [u ''ws''] (u ''.env'')), Print msg_starting_postgres,
                     SubprocessRun (compose_up_cmd (docker_compose_main [u ''ws''])) (Some 60),
                     Print msg_start_ok,
                     SubprocessRun (uvicorn_cmd (u ''0.0.0.0'') 8886 True) None]"]
        keep_override [where w = running_world and wp = "[u ''ws'']" and host = None
          and port = None and reload = True and s = "[]" and b = True and started = False
          and s' = "[Print (msg_server_starting (u ''0.0.0.0'') 8886),
                     GetMainStatus (path_str [u ''ws'']), Print msg_already_running,
                     SubprocessRun (uvicorn_cmd (u ''0.0.0.0'') 8886 True) None]"]
  by (simp add: world_defs model_defs io_defs lower_words running_text_contains_marker
        stopped_text_lacks_marker cmd_defs)

text \<open>
  Claim C10. In the default mode \<open>serve_local\<close> returns \<open>True\<close> whatever exit code the
  server process has: once the server command has completed, the outcome is \<open>True\<close>
  unless the \<open>finally\<close> block itself raises. With the graceful switch enabled and the
  wait for the server ending without an interrupt, the outcome is whether the exit
  code is zero.
\<close>

theorem exit_code_influence:
  assumes "serve_prelude w wp host port s = (Inr (h, p, running, started), s')"
    and "s'' = (if running then s' else s' @ [Print msg_dependency_failed])"
    and "cmd = uvicorn_cmd h p reload"
  shows "(\<not> use_graceful w \<and> w_subprocess_run w (length s'') cmd = Inr result \<longrightarrow>
            serve_local w wp host port reload s =
              (case serve_local_finally w wp started (s'' @ [SubprocessRun cmd None]) of
                 (Inl e, s3) \<Rightarrow> (Inl e, s3) | (Inr x, s3) \<Rightarrow> (Inr True, s3)))
       \<and> (use_graceful w \<and> w_popen w (length s'') cmd = Inr ()
            \<and> w_proc_wait w (length s'' + 1) None = Inr rc \<longrightarrow>
            serve_local w wp host port reload s =
              (case serve_local_finally w wp started
                      (s'' @ [if w_platform_system w = u ''Windows''
                              then Popen cmd (CreationFlags (w_has_new_process_group w))
                              else Popen cmd PreexecSetsid,
                              ProcWait None]) of
                 (Inl e, s3) \<Rightarrow> (Inl e, s3) | (Inr x, s3) \<Rightarrow> (Inr (rc = 0), s3)))"
proof (intro conjI impI)
  assume a: "\<not> use_graceful w \<and> w_subprocess_run w (length s'') cmd = Inr result"
  with assms have "serve_local_try w wp host port reload s =
      ((Inr True, started), s'' @ [SubprocessRun cmd None])"
    by (auto simp add: serve_local_try_def run_server_def io_defs Let_def)
  then show "serve_local w wp host port reload s =
              (case serve_local_finally w wp started (s'' @ [SubprocessRun cmd None]) of
                 (Inl e, s3) \<Rightarrow> (Inl e, s3) | (Inr x, s3) \<Rightarrow> (Inr True, s3))"
    by (rule serve_local_after_try)
next
  assume a: "use_graceful w \<and> w_popen w (length s'') cmd = Inr ()
            \<and> w_proc_wait w (length s'' + 1) None = Inr rc"
  with assms have "serve_local_try w wp host port reload s =
      ((Inr (rc = 0), started),
       s'' @ [if w_platform_system w = u ''Windows''
              then Popen cmd (CreationFlags (w_has_new_process_group w))
              else Popen cmd PreexecSetsid,
              ProcWait None])"
    by (auto simp add: serve_local_try_def run_server_def io_defs Let_def)
  then show "serve_local w wp host port reload s =
              (case serve_local_finally w wp started
                      (s'' @ [if w_platform_system w = u ''Windows''
                              then Popen cmd (CreationFlags (w_has_new_process_group w))
                              else Popen cmd PreexecSetsid,
                              ProcWait None]) of
                 (Inl e, s3) \<Rightarrow> (Inl e, s3) | (Inr x, s3) \<Rightarrow> (Inr (rc = 0), s3))"
    by (rule serve_local_after_try)
qed

theorem exit_code_influence_witness:
  "fst (serve_local exit3_world [u ''ws''] None None True []) = Inr True
   \<and> fst (serve_local quiet_world [u ''ws''] None None True []) = Inr True
   \<and> fst (serve_local graceful_exit3_world [u ''ws''] None None True []) = Inr False
   \<and> fst (serve_local (graceful_exit3_world \<lparr> w_proc_wait := w_proc_wait quiet_world \<rparr>)
             [u ''ws''] None None True []) = Inr True"
  using exit_code_influence [where w = exit3_world and wp = "[u ''ws'']" and host = None
          and port = None and reload = True and s = "[]" and h = "u ''0.0.0.0''" and p = 8886
          and running = True and started = True
          and result = "\<lparr> returncode = 3, stderr = [] \<rparr>"
          and s' = "[Print (msg_server_starting (u ''0.0.0.0'') 8886),
                     GetMainStatus (path_str [u ''ws'']), PathResolve [u ''ws''],
                     PathExists (docker_compose_main [u ''ws'']),
                     PathExists (pjoin [u ''ws''] (u ''.env'')), Print msg_starting_postgres,
                     SubprocessRun (compose_up_cmd (docker_compose_main [u ''ws''])) (Some 60),
                     Print msg_start_ok]"]
        exit_code_influence [where w = quiet_world and wp = "[u ''ws'']" and host = None
          and port = None and reload = True and s = "[]" and h = "u ''0.0.0.0''" and p = 8886
          and running = True and started = True
          and result = "\<lparr> returncode = 0, stderr = [] \<rparr>"
          and s' = "[Print (msg_server_starting (u ''0.0.0.0'') 8886),
                     GetMainStatus (path_str [u ''ws'']), PathResolve [u ''ws''],
                     PathExists (docker_compose_main [u ''ws'']),
                     PathExists (pjoin [u ''ws''] (u ''.env'')), Print msg_starting_postgres,
                     SubprocessRun (compose_up_cmd (docker_compose_main [u ''ws''])) (Some 60),
                     Print msg_start_ok]"]
        exit_code_influence [where w = graceful_exit3_world and wp = "[u ''ws'']" and host = None
          and port = None and reload = True and s = "[]" and h = "u ''0.0.0.0''" and p = 8886
          and running = True and started = True and rc = 3
          and s' = "[Print (msg_server_starting (u ''0.0.0.0'') 8886),
                     GetMainStatus (path_str [u ''ws'']), PathResolve [u ''ws''],
                     PathExists (docker_compose_main [u ''ws'']),
                     PathExists (pjoin [u ''ws''] (u ''.env'')), Print msg_starting_postgres,
                     SubprocessRun (compose_up_cmd (docker_compose_main [u ''ws''])) (Some 60),
                     Print msg_start_ok]"]
        exit_code_influence [where
              w = "graceful_exit3_world \<lparr> w_proc_wait := w_proc_wait quiet_world \<rparr>"
          and wp = "[u ''ws'']" and host = None
          and port = None and reload = True and s = "[]" and h = "u ''0.0.0.0''" and p = 8886
          and running = True and started = True and rc = 0
          and s' = "[Print (msg_server_starting (u ''0.0.0.0'') 8886),
                     GetMainStatus (path_str [u ''ws'']), PathResolve [u ''ws''],
                     PathExists (docker_compose_main [u ''ws'']),
                     PathExists (pjoin [u ''ws''] (u ''.env'')), Print msg_starting_postgres,
                     SubprocessRun (compose_up_cmd (docker_compose_main [u ''ws''])) (Some 60),
                     Print msg_start_ok]"]
  by (simp add: world_defs model_defs io_defs lower_words cmd_defs stopped_text_lacks_marker)

text \<open>
  Claim C8, as the code has it. With the graceful switch enabled, an interrupt that
  arrives while the server process is waited for is turned into a shutdown of that
  process and the outcome \<open>True\<close>: on POSIX the process group is sent \<open>SIGTERM\<close>, the
  process is waited for at most 10 seconds, and the group is sent \<open>SIGKILL\<close> if that
  wait fails; on Windows the process is sent the break event, waited for at most 10
  seconds, and killed if that wait fails. This holds when the signalling succeeds and
  the bounded wait is not interrupted again. In the default mode the interrupt is
  absorbed and the outcome is \<open>True\<close>, with no signal and no further wait. In each case
  the \<open>finally\<close> block runs afterwards, on the trace the shutdown has left.
\<close>

theorem interrupt_graceful_shutdown:
  assumes "serve_prelude w wp host port s = (Inr (h, p, running, started), s')"
    and "s'' = (if running then s' else s' @ [Print msg_dependency_failed])"
    and "cmd = uvicorn_cmd h p reload"
  shows "(use_graceful w \<and> w_platform_system w \<noteq> u ''Windows''
          \<and> (\<forall>t. w_popen w t cmd = Inr ())
          \<and> (\<forall>t. w_proc_wait w t None = Inl KeyboardInterrupt)
          \<and> (\<forall>t. w_getpgid w t = Inr pgid)
          \<and> (\<forall>t sg. w_killpg w t pgid sg = Inr ())
          \<and> (\<forall>t. w_proc_wait w t (Some 10) = out)
          \<and> (\<forall>e. out = Inl e \<longrightarrow> is_Exception e)
          \<longrightarrow> serve_local w wp host port reload s =
              (case serve_local_finally w wp started
                      (s'' @ [Popen cmd PreexecSetsid, ProcWait None, GetPgid,
                              KillPg pgid SIGTERM, ProcWait (Some 10)]
                           @ (case out of Inl e \<Rightarrow> [GetPgid, KillPg pgid SIGKILL]
                              | Inr rc \<Rightarrow> [])) of
                 (Inl e, s3) \<Rightarrow> (Inl e, s3) | (Inr x, s3) \<Rightarrow> (Inr True, s3)))
     \<and> (use_graceful w \<and> w_platform_system w = u ''Windows''
          \<and> sig = (if w_has_ctrl_break w then CTRL_BREAK_EVENT else SIGTERM)
          \<and> (\<forall>t. w_popen w t cmd = Inr ())
          \<and> (\<forall>t. w_proc_wait w t None = Inl KeyboardInterrupt)
          \<and> (\<forall>t. w_proc_send_signal w t sig = Inr ())
          \<and> (\<forall>t. w_proc_wait w t (Some 10) = out)
          \<and> (\<forall>e. out = Inl e \<longrightarrow> is_Exception e \<and> (\<forall>t. w_proc_kill w t = Inr ()))
          \<longrightarrow> serve_local w wp host port reload s =
              (case serve_local_finally w wp started
                      (s'' @ [Popen cmd (CreationFlags (w_has_new_process_group w)),
                              ProcWait None, ProcSendSignal sig, ProcWait (Some 10)]
                           @ (case out of Inl e \<Rightarrow> [ProcKill] | Inr rc \<Rightarrow> [])) of
                 (Inl e, s3) \<Rightarrow> (Inl e, s3) | (Inr x, s3) \<Rightarrow> (Inr True, s3)))
     \<and> (\<not> use_graceful w \<and> (\<forall>t. w_subprocess_run w t cmd = Inl KeyboardInterrupt)
          \<longrightarrow> serve_local w wp host port reload s =
              (case serve_local_finally w wp started (s'' @ [SubprocessRun cmd None]) of
                 (Inl e, s3) \<Rightarrow> (Inl e, s3) | (Inr x, s3) \<Rightarrow> (Inr True, s3)))"
proof (intro conjI impI)
  assume a: "use_graceful w \<and> w_platform_system w \<noteq> u ''Windows''
          \<and> (\<forall>t. w_popen w t cmd = Inr ())
          \<and> (\<forall>t. w_proc_wait w t None = Inl KeyboardInterrupt)
          \<and> (\<forall>t. w_getpgid w t = Inr pgid)
          \<and> (\<forall>t sg. w_killpg w t pgid sg = Inr ())
          \<and> (\<forall>t. w_proc_wait w t (Some 10) = out)
          \<and> (\<forall>e. out = Inl e \<longrightarrow> is_Exception e)"
  from a assms have "serve_local_try w wp host port reload s =
      ((Inr True, started),
       s'' @ [Popen cmd PreexecSetsid, ProcWait None, GetPgid, KillPg pgid SIGTERM,
              ProcWait (Some 10)]
           @ (case out of Inl e \<Rightarrow> [GetPgid, KillPg pgid SIGKILL] | Inr rc \<Rightarrow> []))"
    by (cases out)
       (auto simp add: serve_local_try_def run_server_def shutdown_posix_def killpg_of_proc_def
          io_defs Let_def)
  then show "serve_local w wp host port reload s =
              (case serve_local_finally w wp started
                      (s'' @ [Popen cmd PreexecSetsid, ProcWait None, GetPgid,
                              KillPg pgid SIGTERM, ProcWait (Some 10)]
                           @ (case out of Inl e \<Rightarrow> [GetPgid, KillPg pgid SIGKILL]
                              | Inr rc \<Rightarrow> [])) of
                 (Inl e, s3) \<Rightarrow> (Inl e, s3) | (Inr x, s3) \<Rightarrow> (Inr True, s3))"
    by (rule serve_local_after_try)
next
  assume a: "use_graceful w \<and> w_platform_system w = u ''Windows''
          \<and> sig = (if w_has_ctrl_break w then CTRL_BREAK_EVENT else SIGTERM)
          \<and> (\<forall>t. w_popen w t cmd = Inr ())
          \<and> (\<forall>t. w_proc_wait w t None = Inl KeyboardInterrupt)
          \<and> (\<forall>t. w_proc_send_signal w t sig = Inr ())
          \<and> (\<forall>t. w_proc_wait w t (Some 10) = out)
          \<and> (\<forall>e. out = Inl e \<longrightarrow> is_Exception e \<and> (\<forall>t. w_proc_kill w t = Inr ()))"
  from a assms have "serve_local_try w wp host port reload s =
      ((Inr True, started),
       s'' @ [Popen cmd (CreationFlags (w_has_new_process_group w)), ProcWait None,
              ProcSendSignal sig, ProcWait (Some 10)]
           @ (case out of Inl e \<Rightarrow> [ProcKill] | Inr rc \<Rightarrow> []))"
    by (cases out)
       (auto simp add: serve_local_try_def run_server_def shutdown_windows_def
          io_defs Let_def)
  then show "serve_local w wp host port reload s =
              (case serve_local_finally w wp started
                      (s'' @ [Popen cmd (CreationFlags (w_has_new_process_group w)),
                              ProcWait None, ProcSendSignal sig, ProcWait (Some 10)]
                           @ (case out of Inl e \<Rightarrow> [ProcKill] | Inr rc \<Rightarrow> [])) of
                 (Inl e, s3) \<Rightarrow> (Inl e, s3) | (Inr x, s3) \<Rightarrow> (Inr True, s3))"
    by (rule serve_local_after_try)
next
  assume a: "\<not> use_graceful w \<and> (\<forall>t. w_subprocess_run w t cmd = Inl KeyboardInterrupt)"
  with assms have "serve_local_try w wp host port reload s =
      ((Inr True, started), s'' @ [SubprocessRun cmd None])"
    by (auto simp add: serve_local_try_def run_server_def io_defs Let_def)
  then show "serve_local w wp host port reload s =
              (case serve_local_finally w wp started (s'' @ [SubprocessRun cmd None]) of
                 (Inl e, s3) \<Rightarrow> (Inl e, s3) | (Inr x, s3) \<Rightarrow> (Inr True, s3))"
    by (rule serve_local_after_try)
qed

theorem interrupt_graceful_shutdown_witness:
  "fst (serve_local graceful_interrupt_world [u ''ws''] None None True []) = Inr True
   \<and> filter is_shutdown_step (snd (serve_local graceful_interrupt_world [u ''ws''] None None True []))
       = [ProcWait None, KillPg 4242 SIGTERM, ProcWait (Some 10), KillPg 4242 SIGKILL]
   \<and> invocations (snd (serve_local graceful_interrupt_world [u ''ws''] None None True []))
       = [compose_up_cmd (docker_compose_main [u ''ws'']),
          compose_stop_cmd (docker_compose_main [u ''ws'']),
          compose_rm_cmd (docker_compose_main [u ''ws''])]
   \<and> fst (serve_local (graceful_interrupt_world
                          \<lparr> w_platform_system := u ''Windows'', w_has_ctrl_break := True \<rparr>)
             [u ''ws''] None None True []) = Inr True
   \<and> filter is_shutdown_step
        (snd (serve_local (graceful_interrupt_world
                             \<lparr> w_platform_system := u ''Windows'', w_has_ctrl_break := True \<rparr>)
                [u ''ws''] None None True []))
       = [ProcWait None, ProcSendSignal CTRL_BREAK_EVENT, ProcWait (Some 10), ProcKill]
   \<and> fst (serve_local interrupt_world [u ''ws''] None None True []) = Inr True"
  using interrupt_graceful_shutdown [where w = graceful_interrupt_world and wp = "[u ''ws'']"
          and host = None and port = None and reload = True and s = "[]"
          and h = "u ''0.0.0.0''" and p = 8886 and running = True and started = True
          and pgid = 4242 and out = "Inl (TimeoutExpired (u ''timed out'') [])"
          and s' = "[Print (msg_server_starting (u ''0.0.0.0'') 8886),
                     GetMainStatus (path_str [u ''ws'']), PathResolve [u ''ws''],
                     PathExists (docker_compose_main [u ''ws'']),
                     PathExists (pjoin [u ''ws''] (u ''.env'')), Print msg_starting_postgres,
                     SubprocessRun (compose_up_cmd (docker_compose_main [u ''ws''])) (Some 60),
                     Print msg_start_ok]"]
        interrupt_graceful_shutdown [where
              w = "graceful_interrupt_world
                     \<lparr> w_platform_system := u ''Windows'', w_has_ctrl_break := True \<rparr>"
          and wp = "[u ''ws'']"
          and host = None and port = None and reload = True and s = "[]"
          and h = "u ''0.0.0.0''" and p = 8886 and running = True and started = True
          and sig = CTRL_BREAK_EVENT and out = "Inl (TimeoutExpired (u ''timed out'') [])"
          and s' = "[Print (msg_server_starting (u ''0.0.0.0'') 8886),
                     GetMainStatus (path_str [u ''ws'']), PathResolve [u ''ws''],
                     PathExists (docker_compose_main [u ''ws'']),
                     PathExists (pjoin [u ''ws''] (u ''.env'')), Print msg_starting_postgres,
                     SubprocessRun (compose_up_cmd (docker_compose_main [u ''ws''])) (Some 60),
                     Print msg_start_ok]"]
        interrupt_graceful_shutdown [where w = interrupt_world and wp = "[u ''ws'']"
          and host = None and port = None and reload = True and s = "[]"
          and h = "u ''0.0.0.0''" and p = 8886 and running = True and started = True
          and s' = "[Print (msg_server_starting (u ''0.0.0.0'') 8886),
                     GetMainStatus (path_str [u ''ws'']), PathResolve [u ''ws''],
                     PathExists (docker_compose_main [u ''ws'']),
                     PathExists (pjoin [u ''ws''] (u ''.env'')), Print msg_starting_postgres,
                     SubprocessRun (compose_up_cmd (docker_compose_main [u ''ws''])) (Some 60),
                     Print msg_start_ok]"]
  by (simp add: world_defs model_defs io_defs lower_words cmd_defs stopped_text_lacks_marker
        is_Exception_def)

text \<open>
  Claim C8 as stated turns every interrupt into a signal to the process group and a
  bounded wait. In the default mode, where the graceful switch is not set, an interrupt
  of the server command yields the outcome \<open>True\<close> and the run contains no signal, no
  kill and no wait at all.
\<close>

theorem interrupt_default_mode_counterexample:
  "w_subprocess_run interrupt_world 8 (uvicorn_cmd (u ''0.0.0.0'') 8886 True)
     = Inl KeyboardInterrupt
   \<and> fst (serve_local interrupt_world [u ''ws''] None None True []) = Inr True
   \<and> filter is_shutdown_step (snd (serve_local interrupt_world [u ''ws''] None None True [])) = []"
  by (simp add: world_defs model_defs io_defs lower_words cmd_defs stopped_text_lacks_marker)

end
